theory Spec2Isabelle
  imports Main
begin

section \<open>Values and objects of the JavaScript runtime\<close>

text \<open>
  The values that travel through the state-sync provider and the chat route are JSON
  values. Numbers are the integer-valued ones; strings are lists of characters, one
  character per UTF-16 code unit, so \<open>length\<close> is what \<open>.length\<close> counts for text
  whose code units are single bytes. An object is an association list with its keys in
  insertion order; writing a property replaces the value of an existing key in place
  and appends a new key (the re-ordering of integer-like keys is not modelled).
\<close>

datatype json =
    JNull
  | JBool bool
  | JNum int
  | JStr string
  | JArr "json list"
  | JObj "(string \<times> json) list"

type_synonym obj = "(string \<times> json) list"

text \<open>Truthiness of a value, as \<open>!x\<close>, \<open>x || y\<close> and \<open>if (x)\<close> test it.\<close>

fun truthy :: "json \<Rightarrow> bool" where
  "truthy JNull = False"
| "truthy (JBool b) = b"
| "truthy (JNum n) = (n \<noteq> 0)"
| "truthy (JStr s) = (s \<noteq> [])"
| "truthy (JArr xs) = True"
| "truthy (JObj kvs) = True"

text \<open>\<open>o[k]\<close>: the value of an own property, \<open>None\<close> for \<open>undefined\<close>.\<close>

definition get_prop :: "(string \<times> 'v) list \<Rightarrow> string \<Rightarrow> 'v option" where
  "get_prop kvs k = map_of kvs k"

text \<open>\<open>o[k] = v\<close>, and \<open>{...o, [k]: v}\<close> on a copy.\<close>

fun set_prop :: "(string \<times> 'v) list \<Rightarrow> string \<Rightarrow> 'v \<Rightarrow> (string \<times> 'v) list" where
  "set_prop [] k v = [(k, v)]"
| "set_prop ((k', v') # kvs) k v =
     (if k' = k then (k, v) # kvs else (k', v') # set_prop kvs k v)"

text \<open>\<open>s.startsWith(p)\<close> and \<open>s.includes(p)\<close>.\<close>

definition startsWith :: "string \<Rightarrow> string \<Rightarrow> bool" where
  "startsWith s p = (take (length p) s = p)"

fun includes_str :: "string \<Rightarrow> string \<Rightarrow> bool" where
  "includes_str [] p = (p = [])"
| "includes_str (c # cs) p = (startsWith (c # cs) p \<or> includes_str cs p)"

text \<open>
  \<open>JSON.stringify\<close> and \<open>JSON.parse\<close> belong to the runtime, not to the repository:
  every function below that calls them takes them as the parameters \<open>stringify\<close>
  and \<open>parse\<close>; \<open>parse s = None\<close> stands for the \<open>SyntaxError\<close> that
  \<open>JSON.parse\<close> throws.
\<close>

type_synonym stringify = "json \<Rightarrow> string"
type_synonym parse = "string \<Rightarrow> json option"


section \<open>The state-sync provider (src/providers/sync-provider.tsx)\<close>

text \<open>
  The provider's world: the browser's \<open>window\<close> and \<open>localStorage\<close> (keys and
  serialized values, in the order \<open>localStorage.key(i)\<close> enumerates them), the four
  pieces of React state, and the rows of the \<open>user_data\<close> table that the signed-in
  user can see, each row given by its \<open>data\<close> column (\<open>None\<close> for \<open>null\<close>, otherwise
  the JSON object the provider stores there). \<open>state\<close> is the own properties of the
  React state object. A state setter takes effect when it is called, \<open>localStorage\<close>
  has room for every item, and what goes to the console is left out.
\<close>

record sync_world =
  window_defined :: bool
  localStorage_in_window :: bool
  localStorage :: "(string \<times> string) list"
  state :: obj
  isSync :: bool
  isSyncing :: bool
  isLoading :: bool
  user_data :: "obj option list"

text \<open>
  What the Supabase client answers during one call of the provider:
  \<open>supabase.auth.getUser()\<close> throws, resolves without a user or resolves with one;
  the \<open>select\<close> may report an error of its own with the given code; the \<open>update\<close>
  or \<open>insert\<close> may report an error, in which case the table is left as it was.
\<close>

datatype auth_result = AuthThrows | NoUser | SignedIn

record supabase_env =
  getUser :: auth_result
  select_error :: "string option"
  write_error :: bool

datatype sync_error = AuthError | FetchError string | UpdateError | InsertError

definition isLocalStorageAvailable :: "sync_world \<Rightarrow> bool" where
  "isLocalStorageAvailable w = (window_defined w \<and> localStorage_in_window w)"

definition getItem :: "(string \<times> string) list \<Rightarrow> string \<Rightarrow> string option" where
  "getItem store k = get_prop store k"

definition setItem :: "(string \<times> string) list \<Rightarrow> string \<Rightarrow> string \<Rightarrow> (string \<times> string) list" where
  "setItem store k v = set_prop store k v"

text \<open>
  \<open>supabase.from("user_data").select("data").single()\<close>: the one visible row, or the
  error \<open>PGRST116\<close> when the rows are none or several; a reported error comes first.
  The result is \<open>(userData, error)\<close> with \<open>userData = Some d\<close> for \<open>{data: d}\<close>.
\<close>

definition select_single :: "supabase_env \<Rightarrow> sync_world \<Rightarrow> obj option option \<times> string option" where
  "select_single env w =
     (case select_error env of
        Some code \<Rightarrow> (None, Some code)
      | None \<Rightarrow>
          (case user_data w of
             [d] \<Rightarrow> (Some d, None)
           | _ \<Rightarrow> (None, Some ''PGRST116'')))"

text \<open>\<open>.update({data: updatedData}).neq("data", null)\<close> rewrites every row whose data is not null.\<close>

definition update_rows :: "obj \<Rightarrow> obj option list \<Rightarrow> obj option list" where
  "update_rows updatedData rows =
     map (\<lambda>d. case d of None \<Rightarrow> None | Some old \<Rightarrow> Some updatedData) rows"

text \<open>\<open>.insert({data: updatedData})\<close> adds a row.\<close>

definition insert_row :: "obj \<Rightarrow> obj option list \<Rightarrow> obj option list" where
  "insert_row updatedData rows = rows @ [Some updatedData]"

subsection \<open>Objects written by assignment\<close>

text \<open>
  \<open>localState\<close> and \<open>mergedState\<close> are plain objects that \<open>loadInitialState\<close> writes
  with \<open>o[key] = value\<close> and reads with \<open>o[key]\<close>. Such an object is its own properties
  together with its prototype. The prototype is \<open>Object.prototype\<close> at first; an
  assignment to the key \<open>__proto__\<close> runs the setter that \<open>Object.prototype\<close> has for
  it, which stores no property: an object or an array becomes the prototype, \<open>null\<close>
  removes the prototype, any other value is ignored.
\<close>

datatype prototype = ObjectPrototype | NullPrototype | ReplacedBy json

type_synonym js_object = "obj \<times> prototype"

definition set_prototype :: "prototype \<Rightarrow> json \<Rightarrow> prototype" where
  "set_prototype p v =
     (case v of
        JObj kvs \<Rightarrow> ReplacedBy v
      | JArr xs \<Rightarrow> ReplacedBy v
      | JNull \<Rightarrow> NullPrototype
      | _ \<Rightarrow> p)"

text \<open>
  An assignment to \<open>__proto__\<close> that finds no own property of that name walks up the
  prototype chain. It reaches the setter unless the chain ends before
  \<open>Object.prototype\<close> (the prototype was removed) or the replaced prototype has a data
  property \<open>__proto__\<close> of its own, as \<open>JSON.parse\<close> creates it.
\<close>

definition reaches_setter :: "prototype \<Rightarrow> bool" where
  "reaches_setter p =
     (case p of
        ObjectPrototype \<Rightarrow> True
      | NullPrototype \<Rightarrow> False
      | ReplacedBy (JObj kvs) \<Rightarrow> get_prop kvs ''__proto__'' = None
      | ReplacedBy other \<Rightarrow> True)"

text \<open>
  \<open>o[key] = value\<close>. Every key but \<open>__proto__\<close> becomes or stays an own property: what
  the prototype chain can hold for it is a writable data property.
\<close>

definition assign :: "js_object \<Rightarrow> string \<Rightarrow> json \<Rightarrow> js_object" where
  "assign ob key val =
     (case ob of (own, proto) \<Rightarrow>
        if key = ''__proto__'' \<and> get_prop own key = None \<and> reaches_setter proto
        then (own, set_prototype proto val)
        else (set_prop own key val, proto))"

text \<open>The index that a key is in an array: a decimal numeral without a leading zero.\<close>

definition is_digit :: "char \<Rightarrow> bool" where
  "is_digit c = (48 \<le> (of_char c :: nat) \<and> (of_char c :: nat) \<le> 57)"

definition array_index :: "string \<Rightarrow> nat option" where
  "array_index s =
     (if s = [] \<or> \<not> list_all is_digit s \<or> (1 < length s \<and> hd s = CHR ''0'') then None
      else Some (foldl (\<lambda>n c. 10 * n + (of_char c - 48)) 0 s))"

text \<open>
  What a read of \<open>o[key]\<close> finds on the prototype chain when \<open>key\<close> is no own
  property, as far as it is a JSON value: a property of a replaced prototype (an
  own property of the object, an element or the length of the array), and for
  \<open>__proto__\<close> the prototype itself, which the getter returns; \<open>Object.prototype\<close> is
  truthy and serializes as the empty object, which stands for it here. \<open>None\<close> is
  \<open>undefined\<close> or one of the built-in functions.
\<close>

definition inherited :: "prototype \<Rightarrow> string \<Rightarrow> json option" where
  "inherited p key =
     (case p of
        ObjectPrototype \<Rightarrow> if key = ''__proto__'' then Some (JObj []) else None
      | NullPrototype \<Rightarrow> None
      | ReplacedBy (JObj kvs) \<Rightarrow>
          (case get_prop kvs key of
             Some v \<Rightarrow> Some v
           | None \<Rightarrow> if key = ''__proto__'' then Some (JObj kvs) else None)
      | ReplacedBy (JArr xs) \<Rightarrow>
          (case array_index key of
             Some i \<Rightarrow> if i < length xs then Some (xs ! i) else None
           | None \<Rightarrow>
               if key = ''length'' then Some (JNum (int (length xs)))
               else if key = ''__proto__'' then Some (JArr xs)
               else None)
      | ReplacedBy other \<Rightarrow> None)"

definition js_get :: "js_object \<Rightarrow> string \<Rightarrow> json option" where
  "js_get ob key =
     (case ob of (own, proto) \<Rightarrow>
        (case get_prop own key of Some v \<Rightarrow> Some v | None \<Rightarrow> inherited proto key))"

subsection \<open>loadInitialState\<close>

text \<open>
  One round of the loop over \<open>localStorage\<close> (lines 56 to 71): reserved and secret
  keys are skipped, an empty item is skipped, an item that does not parse is kept as
  the raw string.
\<close>

definition load_key :: "parse \<Rightarrow> (string \<times> string) list \<Rightarrow> js_object \<Rightarrow> string \<Rightarrow> js_object" where
  "load_key parse store localState key =
     (if key \<noteq> [] \<and> \<not> startsWith key ''sb-'' \<and> \<not> includes_str key ''api_key'' then
        (case getItem store key of
           None \<Rightarrow> localState
         | Some item \<Rightarrow>
             if item = [] then localState
             else (case parse item of
                     Some v \<Rightarrow> assign localState key v
                   | None \<Rightarrow> assign localState key (JStr item)))
      else localState)"

definition load_local :: "parse \<Rightarrow> (string \<times> string) list \<Rightarrow> js_object" where
  "load_local parse store = foldl (load_key parse store) ([], ObjectPrototype) (map fst store)"

text \<open>
  The test of lines 94 to 97 on \<open>localState\<close>, which the merge loop does not change. A
  built-in function that the read finds is truthy and has no serialization, so that
  the test is true for it as it is for \<open>undefined\<close>.
\<close>

definition remote_wins :: "stringify \<Rightarrow> js_object \<Rightarrow> string \<Rightarrow> json \<Rightarrow> bool" where
  "remote_wins stringify localState key val =
     (case js_get localState key of
        None \<Rightarrow> True
      | Some lv \<Rightarrow> \<not> truthy lv \<or> stringify lv \<noteq> stringify val)"

text \<open>
  One round of the merge loop over \<open>Object.entries(supabaseData)\<close> (lines 93 to 103),
  on the triple of \<open>mergedState\<close>, \<open>localStorage\<close> and \<open>hasUpdates\<close>.
\<close>

definition merge_entry ::
  "stringify \<Rightarrow> js_object \<Rightarrow> js_object \<times> (string \<times> string) list \<times> bool \<Rightarrow> string \<times> json
     \<Rightarrow> js_object \<times> (string \<times> string) list \<times> bool" where
  "merge_entry stringify localState acc entry =
     (case acc of (mergedState, store, hasUpdates) \<Rightarrow>
        (case entry of (key, val) \<Rightarrow>
           if remote_wins stringify localState key val
           then (assign mergedState key val, setItem store key (stringify val), True)
           else (mergedState, store, hasUpdates)))"

text \<open>
  Lines 89 to 103. The spread \<open>{ ...localState }\<close> copies the own properties into a
  new object, whose prototype is \<open>Object.prototype\<close>.
\<close>

definition merge_remote ::
  "stringify \<Rightarrow> js_object \<Rightarrow> (string \<times> string) list \<Rightarrow> obj
     \<Rightarrow> js_object \<times> (string \<times> string) list \<times> bool" where
  "merge_remote stringify localState store supabaseData =
     foldl (merge_entry stringify localState) ((fst localState, ObjectPrototype), store, False)
       supabaseData"

text \<open>
  The body of the \<open>try\<close> block of \<open>loadInitialState\<close>, after the local state has been
  read and set: \<open>Inl\<close> is a thrown error, which the \<open>catch\<close> only logs. The \<open>state\<close> of
  the world is the own properties of the object that \<open>setState\<close> is given.
\<close>

definition load_try :: "parse \<Rightarrow> stringify \<Rightarrow> supabase_env \<Rightarrow> sync_world \<Rightarrow> sync_error + sync_world" where
  "load_try parse stringify env w =
     (let localState = load_local parse (localStorage w);
          w1 = w\<lparr>state := fst localState\<rparr>
      in case getUser env of
           AuthThrows \<Rightarrow> Inl AuthError
         | NoUser \<Rightarrow> Inr w1
         | SignedIn \<Rightarrow>
             (case select_single env w1 of
                (Some (Some supabaseData), None) \<Rightarrow>
                  (case merge_remote stringify localState (localStorage w1) supabaseData of
                     (mergedState, store, hasUpdates) \<Rightarrow>
                       Inr (w1\<lparr>localStorage := store,
                                state := (if hasUpdates then fst mergedState else state w1)\<rparr>))
              | _ \<Rightarrow> Inr w1))"

text \<open>
  \<open>loadInitialState\<close>. When the \<open>try\<close> block throws, the state set before the throw
  stays: the only throwing step comes after \<open>setState(localState)\<close> and before any
  other write.
\<close>

definition loadInitialState :: "parse \<Rightarrow> stringify \<Rightarrow> supabase_env \<Rightarrow> sync_world \<Rightarrow> sync_world" where
  "loadInitialState parse stringify env w =
     (if \<not> isLocalStorageAvailable w then w\<lparr>isLoading := False\<rparr>
      else (case load_try parse stringify env w of
              Inr w' \<Rightarrow> w'\<lparr>isLoading := False\<rparr>
            | Inl e \<Rightarrow> w\<lparr>state := fst (load_local parse (localStorage w)), isLoading := False\<rparr>))"

subsection \<open>updateState\<close>

text \<open>
  \<open>updateState\<close> is an async function: it runs up to an \<open>await\<close>, hands control back
  to the event loop and is resumed when the awaited answer arrives. Between the
  moment a request to the table is sent and the moment it is answered, the remote
  store carries it out. A call in flight is a task that remembers where it is and the
  locals it still needs: it waits for the answer of \<open>getUser\<close>; its \<open>select\<close> has been
  sent; the \<open>select\<close> has been carried out and its result, \<open>userData\<close> and
  \<open>fetchError\<close>, is on its way; its \<open>update\<close> or \<open>insert\<close> of \<open>updatedData\<close> has been
  sent (the flag says that \<open>userData\<close> was there, so that the write is an \<open>update\<close>);
  the write has been carried out and its error, if any, is on its way. \<open>Finished\<close>
  carries the error that the \<open>catch\<close> logged, if any.
\<close>

datatype update_task =
    AwaitGetUser string json
  | SelectSent string json
  | SelectRead string json "obj option option" "string option"
  | WriteSent bool obj
  | WriteDone "sync_error option"
  | Finished "sync_error option"

text \<open>The two ways out of the \<open>try\<close>: its last statement and \<open>finally\<close>, or \<open>catch\<close> and \<open>finally\<close>.\<close>

definition update_succeed :: "sync_world \<Rightarrow> update_task \<times> sync_world" where
  "update_succeed w = (Finished None, w\<lparr>isSync := True, isSyncing := False\<rparr>)"

definition update_catch :: "sync_error \<Rightarrow> sync_world \<Rightarrow> update_task \<times> sync_world" where
  "update_catch e w = (Finished (Some e), w\<lparr>isSync := False, isSyncing := False\<rparr>)"

text \<open>Lines 122 to 143: from the call to the first \<open>await\<close>.\<close>

definition update_begin :: "stringify \<Rightarrow> string \<Rightarrow> json \<Rightarrow> sync_world \<Rightarrow> update_task \<times> sync_world" where
  "update_begin stringify key data w =
     (if \<not> isLocalStorageAvailable w then (Finished None, w)
      else
        let w1 = w\<lparr>isSyncing := True, isSync := False\<rparr>;
            w2 = w1\<lparr>state := set_prop (state w1) key data\<rparr>;
            serializedData = stringify data;
            w3 = w2\<lparr>localStorage := setItem (localStorage w2) key serializedData\<rparr>
        in (AwaitGetUser key data, w3))"

text \<open>Lines 157 to 179, up to the \<open>await\<close>: the merged blob, and the write that is sent.\<close>

definition issue_write :: "string \<Rightarrow> json \<Rightarrow> obj option option \<Rightarrow> sync_world \<Rightarrow> update_task \<times> sync_world" where
  "issue_write key data userData w =
     (let currentData = (case userData of Some (Some d) \<Rightarrow> d | _ \<Rightarrow> []);
          updatedData = set_prop currentData key data
      in (WriteSent (userData \<noteq> None) updatedData, w))"

text \<open>
  Lines 143 to 180, one step of a call in flight. The call is resumed with the answer
  of \<open>getUser\<close> and sends the \<open>select\<close>; the remote store carries out the \<open>select\<close>
  on the table as it is then; the call is resumed with the result and sends the
  write; the remote store carries out the write, unless it reports an error; the call
  is resumed with the outcome of the write.
\<close>

fun update_step :: "supabase_env \<Rightarrow> update_task \<Rightarrow> sync_world \<Rightarrow> update_task \<times> sync_world" where
  "update_step env (AwaitGetUser key data) w =
     (case getUser env of
        AuthThrows \<Rightarrow> update_catch AuthError w
      | NoUser \<Rightarrow> update_succeed w
      | SignedIn \<Rightarrow> (SelectSent key data, w))"
| "update_step env (SelectSent key data) w =
     (case select_single env w of (userData, fetchError) \<Rightarrow>
        (SelectRead key data userData fetchError, w))"
| "update_step env (SelectRead key data userData fetchError) w =
     (case fetchError of
        Some code \<Rightarrow>
          if code \<noteq> ''PGRST116'' then update_catch (FetchError code) w
          else issue_write key data userData w
      | None \<Rightarrow> issue_write key data userData w)"
| "update_step env (WriteSent has_row updatedData) w =
     (if has_row then
        (if write_error env then (WriteDone (Some UpdateError), w)
         else (WriteDone None, w\<lparr>user_data := update_rows updatedData (user_data w)\<rparr>))
      else
        (if write_error env then (WriteDone (Some InsertError), w)
         else (WriteDone None, w\<lparr>user_data := insert_row updatedData (user_data w)\<rparr>)))"
| "update_step env (WriteDone outcome) w =
     (case outcome of
        Some e \<Rightarrow> update_catch e w
      | None \<Rightarrow> update_succeed w)"
| "update_step env (Finished r) w = (Finished r, w)"

text \<open>
  A call that nothing else interleaves with: it begins and takes its steps until it
  has finished, which takes at most five. The promise it returns is never rejected,
  since every throwing statement is inside the \<open>try\<close>.
\<close>

datatype 'a promise = Resolved 'a | Rejected sync_error

definition update_run :: "stringify \<Rightarrow> supabase_env \<Rightarrow> string \<Rightarrow> json \<Rightarrow> sync_world \<Rightarrow> update_task \<times> sync_world" where
  "update_run stringify env key data w =
     (case update_begin stringify key data w of (t0, w0) \<Rightarrow>
      case update_step env t0 w0 of (t1, w1) \<Rightarrow>
      case update_step env t1 w1 of (t2, w2) \<Rightarrow>
      case update_step env t2 w2 of (t3, w3) \<Rightarrow>
      case update_step env t3 w3 of (t4, w4) \<Rightarrow>
        update_step env t4 w4)"

definition updateState :: "stringify \<Rightarrow> supabase_env \<Rightarrow> string \<Rightarrow> json \<Rightarrow> sync_world \<Rightarrow> sync_world promise" where
  "updateState stringify env key data w = Resolved (snd (update_run stringify env key data w))"

text \<open>
  Two calls in flight at once. Both have begun, in the order of the calls; then the
  steps of the two calls follow each other in some order: \<open>False\<close> in the schedule is
  the next step of the first call, \<open>True\<close> the next step of the second.
\<close>

fun interleave ::
  "supabase_env \<Rightarrow> supabase_env \<Rightarrow> bool list \<Rightarrow> update_task \<times> update_task \<times> sync_world
     \<Rightarrow> update_task \<times> update_task \<times> sync_world" where
  "interleave env1 env2 [] c = c"
| "interleave env1 env2 (False # sched) (t1, t2, w) =
     (case update_step env1 t1 w of (t1', w') \<Rightarrow> interleave env1 env2 sched (t1', t2, w'))"
| "interleave env1 env2 (True # sched) (t1, t2, w) =
     (case update_step env2 t2 w of (t2', w') \<Rightarrow> interleave env1 env2 sched (t1, t2', w'))"

definition two_updates ::
  "stringify \<Rightarrow> supabase_env \<Rightarrow> supabase_env \<Rightarrow> string \<times> json \<Rightarrow> string \<times> json \<Rightarrow> bool list
     \<Rightarrow> sync_world \<Rightarrow> update_task \<times> update_task \<times> sync_world" where
  "two_updates stringify env1 env2 kv1 kv2 sched w =
     (case update_begin stringify (fst kv1) (snd kv1) w of (t1, w1) \<Rightarrow>
      case update_begin stringify (fst kv2) (snd kv2) w1 of (t2, w2) \<Rightarrow>
        interleave env1 env2 sched (t1, t2, w2))"


section \<open>The chat route (src/app/(chat)/api/chat)\<close>

subsection \<open>Constants\<close>

definition FEATURE_NAME :: string where
  "FEATURE_NAME = ''chat-messages''"

record model_info =
  model_id :: string
  model_name :: string
  model_description :: string
  model_provider :: string

definition AVAILABLE_MODELS :: "model_info list" where
  "AVAILABLE_MODELS =
     [\<lparr>model_id = ''gpt-3.5-turbo'', model_name = ''GPT-3.5 Turbo'',
        model_description = ''Fast and efficient'', model_provider = ''openai''\<rparr>,
      \<lparr>model_id = ''gpt-4o'', model_name = ''GPT-4o'',
        model_description = ''Optimized for conversations'', model_provider = ''openai''\<rparr>,
      \<lparr>model_id = ''gpt-4o-mini'', model_name = ''GPT-4o Mini'',
        model_description = ''Lightweight version'', model_provider = ''openai''\<rparr>,
      \<lparr>model_id = ''claude-sonnet-4-20250514'', model_name = ''Claude Sonnet 4'',
        model_description = ''Balanced cost and quality'', model_provider = ''anthropic''\<rparr>]"

subsection \<open>The event stream\<close>

text \<open>
  What the route puts on the controller of its \<open>ReadableStream\<close>: the events it
  enqueues, in order, and how the stream ends, closed or errored. An event stands
  for the frame that \<open>sse_frame\<close> spells out. The consumer is taken to read on
  until the stream ends, so that no \<open>enqueue\<close> meets a cancelled stream. The route's
  errors are named after the place that throws them.
\<close>

datatype sse_event = Metadata json | Content json | DoneSentinel

datatype route_error =
    BodyNotJson
  | TypeError
  | UnsupportedModel json
  | UnknownProvider json
  | MissingCredentials
  | ConnectionFailed
  | UpstreamRequestFailed nat
  | NoResponseBody
  | StreamInterrupted

datatype stream_end = Closed | Errored route_error

definition newline :: char where
  "newline = CHR 0x0A"

definition sse_frame :: "stringify \<Rightarrow> sse_event \<Rightarrow> string" where
  "sse_frame stringify ev =
     (case ev of
        Metadata model \<Rightarrow>
          ''data: '' @ stringify (JObj [(''type'', JStr ''metadata''), (''model'', model)])
            @ [newline, newline]
      | Content content \<Rightarrow>
          ''data: '' @ stringify (JObj [(''type'', JStr ''content''), (''content'', content)])
            @ [newline, newline]
      | DoneSentinel \<Rightarrow> ''data: [DONE]'' @ [newline, newline])"

text \<open>
  A running character count. \<open>+=\<close> keeps it a number as long as what is added is a
  number; adding \<open>undefined\<close> makes it \<open>NaN\<close>, adding a string, array or object
  turns it into a concatenated string, and neither becomes a number again.
\<close>

datatype count = Count int | NaN | Concatenated

fun add_count :: "count \<Rightarrow> json option \<Rightarrow> count" where
  "add_count (Count n) None = NaN"
| "add_count (Count n) (Some (JNum m)) = Count (n + m)"
| "add_count (Count n) (Some JNull) = Count n"
| "add_count (Count n) (Some (JBool b)) = Count (n + (if b then 1 else 0))"
| "add_count (Count n) (Some (JStr s)) = Concatenated"
| "add_count (Count n) (Some (JArr xs)) = Concatenated"
| "add_count (Count n) (Some (JObj kvs)) = Concatenated"
| "add_count NaN None = NaN"
| "add_count NaN (Some (JNum m)) = NaN"
| "add_count NaN (Some JNull) = NaN"
| "add_count NaN (Some (JBool b)) = NaN"
| "add_count NaN (Some (JStr s)) = Concatenated"
| "add_count NaN (Some (JArr xs)) = Concatenated"
| "add_count NaN (Some (JObj kvs)) = Concatenated"
| "add_count Concatenated x = Concatenated"

text \<open>\<open>c || 0\<close> on a count.\<close>

fun count_or_zero :: "count \<Rightarrow> count" where
  "count_or_zero (Count n) = Count n"
| "count_or_zero NaN = Count 0"
| "count_or_zero Concatenated = Concatenated"

subsection \<open>Property access on parsed JSON\<close>

text \<open>
  \<open>x.k\<close> for a value \<open>x\<close> that is not \<open>null\<close> and a key \<open>k\<close> that is neither
  \<open>length\<close> nor an index: only an object has such a property. \<open>x?.k\<close> also
  accepts \<open>undefined\<close> and \<open>null\<close>. \<open>x.length\<close> for a value that is not \<open>null\<close>.
\<close>

fun js_prop :: "json \<Rightarrow> string \<Rightarrow> json option" where
  "js_prop (JObj kvs) k = get_prop kvs k"
| "js_prop x k = None"

fun opt_prop :: "json option \<Rightarrow> string \<Rightarrow> json option" where
  "opt_prop None k = None"
| "opt_prop (Some JNull) k = None"
| "opt_prop (Some x) k = js_prop x k"

fun js_length :: "json \<Rightarrow> json option" where
  "js_length (JStr s) = Some (JNum (int (length s)))"
| "js_length (JArr xs) = Some (JNum (int (length xs)))"
| "js_length (JObj kvs) = get_prop kvs ''length''"
| "js_length x = None"

definition truthy_opt :: "json option \<Rightarrow> bool" where
  "truthy_opt x = (case x of None \<Rightarrow> False | Some v \<Rightarrow> truthy v)"

text \<open>\<open>x || 0\<close>.\<close>

definition or_zero :: "json option \<Rightarrow> json" where
  "or_zero x = (case x of None \<Rightarrow> JNum 0 | Some v \<Rightarrow> if truthy v then v else JNum 0)"

subsection \<open>anthropicStream (anthropic-helper.ts)\<close>

text \<open>
  The request that \<open>fetch\<close> sends and what it answers: the call rejects, or there is a
  response with its \<open>ok\<close> flag, its status and, unless \<open>response.body\<close> is missing, the
  chunks that \<open>reader.read()\<close> hands over one by one, each as the string that
  \<open>decoder.decode\<close> makes of it, together with the way the body ends (\<open>done\<close>, or a
  read that rejects).
\<close>

record anthropic_params =
  params_model :: json
  params_messages :: json
  params_apiKey :: "json option"

record fetch_request =
  url :: string
  http_method :: string
  headers :: "(string \<times> json option) list"
  body_json :: json

datatype body_end = EndOfStream | ReadRejects

record fetch_response =
  ok :: bool
  status :: nat
  response_body :: "(string list \<times> body_end) option"

datatype fetch_result = FetchRejects | Responds fetch_response

record anthropic_usage =
  input_tokens :: json
  output_tokens :: json
  characters :: count

text \<open>Lines 15 to 28. The body is given as the object that \<open>JSON.stringify\<close> is applied to.\<close>

definition anthropic_request :: "anthropic_params \<Rightarrow> fetch_request" where
  "anthropic_request params =
     \<lparr>url = ''https://api.anthropic.com/v1/messages'',
      http_method = ''POST'',
      headers = [(''Content-Type'', Some (JStr ''application/json'')),
                 (''x-api-key'', params_apiKey params),
                 (''anthropic-version'', Some (JStr ''2023-06-01''))],
      body_json = JObj [(''model'', params_model params),
                        (''messages'', params_messages params),
                        (''max_tokens'', JNum 1024),
                        (''stream'', JBool True)]\<rparr>"

text \<open>\<open>chunk.split("\n")\<close>.\<close>

fun split_newline :: "string \<Rightarrow> string list" where
  "split_newline [] = [[]]"
| "split_newline (c # cs) =
     (if c = newline then [] # split_newline cs
      else (case split_newline cs of
              [] \<Rightarrow> [[c]]
            | l # ls \<Rightarrow> (c # l) # ls))"

text \<open>
  Lines 58 to 88, the \<open>try\<close> block run on the data of one line, on the pair of
  \<open>usage\<close> and the controller's queue; \<open>None\<close> is a throw, which the \<open>catch\<close> logs:
  \<open>JSON.parse\<close> throws, \<open>parsed\<close> is \<open>null\<close>, or the text of a text delta is
  \<open>undefined\<close> or \<open>null\<close>. The three tests follow each other as in the source.
\<close>

definition handle_text_delta ::
  "json \<Rightarrow> anthropic_usage \<times> sse_event list \<Rightarrow> (anthropic_usage \<times> sse_event list) option" where
  "handle_text_delta parsed st =
     (case st of (usage, queue) \<Rightarrow>
        if js_prop parsed ''type'' = Some (JStr ''content_block_delta'') \<and>
           opt_prop (js_prop parsed ''delta'') ''type'' = Some (JStr ''text_delta'')
        then (case js_prop parsed ''delta'' of
                None \<Rightarrow> None
              | Some delta \<Rightarrow>
                  (case js_prop delta ''text'' of
                     None \<Rightarrow> None
                   | Some JNull \<Rightarrow> None
                   | Some text \<Rightarrow>
                       Some (usage\<lparr>characters := add_count (characters usage) (js_length text)\<rparr>,
                             queue @ [Content text])))
        else Some st)"

definition handle_message_start ::
  "json \<Rightarrow> anthropic_usage \<times> sse_event list \<Rightarrow> anthropic_usage \<times> sse_event list" where
  "handle_message_start parsed st =
     (case st of (usage, queue) \<Rightarrow>
        if js_prop parsed ''type'' = Some (JStr ''message_start'') \<and>
           truthy_opt (opt_prop (js_prop parsed ''message'') ''usage'')
        then (usage\<lparr>input_tokens :=
                 or_zero (opt_prop (opt_prop (js_prop parsed ''message'') ''usage'') ''input_tokens'')\<rparr>,
              queue)
        else st)"

definition handle_message_delta ::
  "json \<Rightarrow> anthropic_usage \<times> sse_event list \<Rightarrow> anthropic_usage \<times> sse_event list" where
  "handle_message_delta parsed st =
     (case st of (usage, queue) \<Rightarrow>
        if js_prop parsed ''type'' = Some (JStr ''message_delta'') \<and> truthy_opt (js_prop parsed ''usage'')
        then (usage\<lparr>output_tokens := or_zero (opt_prop (js_prop parsed ''usage'') ''output_tokens'')\<rparr>,
              queue)
        else st)"

definition process_data ::
  "parse \<Rightarrow> string \<Rightarrow> anthropic_usage \<times> sse_event list \<Rightarrow> anthropic_usage \<times> sse_event list" where
  "process_data parse data st =
     (case parse data of
        None \<Rightarrow> st
      | Some JNull \<Rightarrow> st
      | Some parsed \<Rightarrow>
          (case handle_text_delta parsed st of
             None \<Rightarrow> st
           | Some st1 \<Rightarrow> handle_message_delta parsed (handle_message_start parsed st1)))"

text \<open>Lines 52 to 90: the loop over the lines of one chunk, left at a \<open>[DONE]\<close> line.\<close>

fun process_lines ::
  "parse \<Rightarrow> string list \<Rightarrow> anthropic_usage \<times> sse_event list \<Rightarrow> anthropic_usage \<times> sse_event list" where
  "process_lines parse [] st = st"
| "process_lines parse (line # lines) st =
     (if startsWith line ''data: '' then
        (let data = drop 6 line
         in if data = ''[DONE]'' then st
            else process_lines parse lines (process_data parse data st))
      else process_lines parse lines st)"

text \<open>Lines 45 to 91: the loop over the chunks that \<open>reader.read()\<close> delivers.\<close>

fun read_loop ::
  "parse \<Rightarrow> string list \<Rightarrow> anthropic_usage \<times> sse_event list \<Rightarrow> anthropic_usage \<times> sse_event list" where
  "read_loop parse [] st = st"
| "read_loop parse (chunk # chunks) st =
     read_loop parse chunks (process_lines parse (split_newline chunk) st)"

text \<open>
  \<open>anthropicStream\<close>, given what \<open>fetch\<close> answers to its request. The result is the
  controller's queue together with the returned usage, or with the error thrown.
  A read that rejects does so after the chunks before it have been processed.
\<close>

definition anthropicStream ::
  "parse \<Rightarrow> (fetch_request \<Rightarrow> fetch_result) \<Rightarrow> anthropic_params \<Rightarrow> sse_event list
     \<Rightarrow> sse_event list \<times> (route_error + anthropic_usage)" where
  "anthropicStream parse fetch params queue =
     (case fetch (anthropic_request params) of
        FetchRejects \<Rightarrow> (queue, Inl ConnectionFailed)
      | Responds response \<Rightarrow>
          if \<not> ok response then (queue, Inl (UpstreamRequestFailed (status response)))
          else (case response_body response of
                  None \<Rightarrow> (queue, Inl NoResponseBody)
                | Some (chunks, ending) \<Rightarrow>
                    (case read_loop parse chunks
                            (\<lparr>input_tokens = JNum 0, output_tokens = JNum 0, characters = Count 0\<rparr>,
                             queue) of
                       (usage, queue') \<Rightarrow>
                         (case ending of
                            EndOfStream \<Rightarrow> (queue', Inr usage)
                          | ReadRejects \<Rightarrow> (queue', Inl StreamInterrupted)))))"


subsection \<open>The OpenAI stream\<close>

text \<open>
  The chunks of the OpenAI SDK, with the fields the route reads:
  \<open>choices[i].delta.content\<close>, \<open>choices[i].finish_reason\<close> and \<open>usage\<close>, each of
  which may be missing or \<open>null\<close>. \<open>chat.completions.create\<close> rejects, with the
  HTTP status when the provider sent one, or resolves with a stream of chunks that
  ends or throws while it is iterated.
\<close>

record choice =
  delta_content :: "string option"
  finish_reason :: "string option"

record completion_usage =
  total_tokens :: int
  prompt_tokens :: int
  completion_tokens :: int

record chunk =
  choices :: "choice list"
  chunk_usage :: "completion_usage option"

record openai_call =
  call_apiKey :: json
  call_model :: json
  call_messages :: json

datatype iteration_end = IterationEnds | IterationThrows

datatype openai_result =
    CreateRejects "nat option"
  | Streams "chunk list" iteration_end

text \<open>The locals of \<open>start\<close> that the loop updates (lines 64 to 68), and the queue.\<close>

record totals =
  totalTokens :: int
  inputTokens :: int
  outputTokens :: int
  finishReason :: string
  totalCharacters :: count

definition initial_totals :: totals where
  "initial_totals =
     \<lparr>totalTokens = 0, inputTokens = 0, outputTokens = 0, finishReason = [],
      totalCharacters = Count 0\<rparr>"

text \<open>Line 84: \<open>chunk.choices[0]?.delta?.content || ""\<close>.\<close>

definition chunk_content :: "chunk \<Rightarrow> string" where
  "chunk_content c =
     (case choices c of
        [] \<Rightarrow> []
      | ch # _ \<Rightarrow> (case delta_content ch of None \<Rightarrow> [] | Some s \<Rightarrow> s))"

text \<open>Lines 84 to 107: one round of the \<open>for await\<close> loop.\<close>

definition openai_chunk :: "totals \<times> sse_event list \<Rightarrow> chunk \<Rightarrow> totals \<times> sse_event list" where
  "openai_chunk st c =
     (case st of (t, queue) \<Rightarrow>
        let content = chunk_content c;
            (t1, queue1) =
              (if content \<noteq> []
               then (t\<lparr>totalCharacters :=
                          add_count (totalCharacters t) (Some (JNum (int (length content))))\<rparr>,
                     queue @ [Content (JStr content)])
               else (t, queue));
            t2 = (case chunk_usage c of
                    None \<Rightarrow> t1
                  | Some u \<Rightarrow> t1\<lparr>totalTokens := total_tokens u,
                                 inputTokens := prompt_tokens u,
                                 outputTokens := completion_tokens u\<rparr>);
            t3 = (case choices c of
                    [] \<Rightarrow> t2
                  | ch # _ \<Rightarrow> (case finish_reason ch of
                                 None \<Rightarrow> t2
                               | Some r \<Rightarrow> if r \<noteq> [] then t2\<lparr>finishReason := r\<rparr> else t2))
        in (t3, queue1))"

definition openai_loop :: "chunk list \<Rightarrow> totals \<times> sse_event list \<Rightarrow> totals \<times> sse_event list" where
  "openai_loop chunks st = foldl openai_chunk st chunks"

subsection \<open>POST (route.ts)\<close>

text \<open>
  The surroundings of one request: the signed-in user's id, if any, the answer of
  \<open>isFeatureEntitled\<close> for a user id, the two keys of the process environment, and
  the two providers. A request is the result of \<open>request.json()\<close>, \<open>None\<close> when it
  throws.
\<close>

record chat_env =
  auth_user :: "string option"
  isFeatureEntitled :: "string \<Rightarrow> bool"
  OPENAI_API_KEY :: "string option"
  ANTHROPIC_API_KEY :: "string option"
  openai_create :: "openai_call \<Rightarrow> openai_result"
  anthropic_fetch :: "fetch_request \<Rightarrow> fetch_result"

datatype provider_call = OpenAICreate openai_call | AnthropicFetch fetch_request

datatype http_response =
    JsonResponse nat string
  | EventStream "sse_event list" stream_end

text \<open>
  What a request leaves behind: the response, the calls made to a completion
  provider, the error that line 171 logged, the character count that line 142 logged,
  and the number of \<open>sendEvent\<close> calls.
\<close>

record post_result =
  response :: http_response
  provider_calls :: "provider_call list"
  logged_error :: "route_error option"
  logged_characters :: "count option"
  sendEvent_calls :: nat

text \<open>\<open>userApiKey || process.env.KEY\<close>.\<close>

definition key_or_env :: "json option \<Rightarrow> string option \<Rightarrow> json option" where
  "key_or_env userApiKey env_key =
     (if truthy_opt userApiKey then userApiKey else map_option JStr env_key)"

text \<open>
  Lines 52 to 160, the \<open>start\<close> function of the stream: the events enqueued, how
  the stream ends, the provider calls made and the character count logged. The
  OpenAI client refuses to be built without a key.
\<close>

definition start ::
  "parse \<Rightarrow> chat_env \<Rightarrow> json \<Rightarrow> json \<Rightarrow> json \<Rightarrow> json option
     \<Rightarrow> sse_event list \<times> stream_end \<times> provider_call list \<times> count option" where
  "start parse env messages model provider userApiKey =
     (let queue = [Metadata model]
      in if provider = JStr ''openai'' then
           (case key_or_env userApiKey (OPENAI_API_KEY env) of
              None \<Rightarrow> (queue, Errored MissingCredentials, [], None)
            | Some apiKey \<Rightarrow>
                let call = \<lparr>call_apiKey = apiKey, call_model = model, call_messages = messages\<rparr>
                in (case openai_create env call of
                      CreateRejects None \<Rightarrow>
                        (queue, Errored ConnectionFailed, [OpenAICreate call], None)
                    | CreateRejects (Some code) \<Rightarrow>
                        (queue, Errored (UpstreamRequestFailed code), [OpenAICreate call], None)
                    | Streams chunks ending \<Rightarrow>
                        (case openai_loop chunks (initial_totals, queue) of (t, queue') \<Rightarrow>
                           (case ending of
                              IterationThrows \<Rightarrow>
                                (queue', Errored StreamInterrupted, [OpenAICreate call], None)
                            | IterationEnds \<Rightarrow>
                                (queue' @ [DoneSentinel], Closed, [OpenAICreate call],
                                 Some (totalCharacters t))))))
         else if provider = JStr ''anthropic'' then
           (let params = \<lparr>params_model = model, params_messages = messages,
                          params_apiKey = key_or_env userApiKey (ANTHROPIC_API_KEY env)\<rparr>;
                calls = [AnthropicFetch (anthropic_request params)]
            in case anthropicStream parse (anthropic_fetch env) params queue of
                 (queue', Inl e) \<Rightarrow> (queue', Errored e, calls, None)
               | (queue', Inr usage) \<Rightarrow>
                   (queue' @ [DoneSentinel], Closed, calls,
                    Some (count_or_zero (characters usage))))
         else (queue, Errored (UnknownProvider provider), [], None))"

text \<open>Lines 32 and 33: \<open>model\<close> and \<open>provider\<close> with their defaults, which replace \<open>undefined\<close> only.\<close>

definition request_model :: "json \<Rightarrow> json" where
  "request_model body =
     (case js_prop body ''model'' of None \<Rightarrow> JStr ''gpt-3.5-turbo'' | Some m \<Rightarrow> m)"

definition request_provider :: "json \<Rightarrow> json" where
  "request_provider body =
     (case js_prop body ''provider'' of None \<Rightarrow> JStr ''openai'' | Some p \<Rightarrow> p)"

text \<open>
  Lines 29 to 175, the outer \<open>try\<close> block: the destructuring of the body, the two
  checks, and the stream. \<open>Inl\<close> is the error thrown to line 170.
\<close>

definition post_try :: "parse \<Rightarrow> chat_env \<Rightarrow> json option \<Rightarrow> route_error + post_result" where
  "post_try parse env request_json =
     (case request_json of
        None \<Rightarrow> Inl BodyNotJson
      | Some JNull \<Rightarrow> Inl TypeError
      | Some body \<Rightarrow>
          let messages = js_prop body ''messages'';
              model = request_model body;
              provider = request_provider body;
              userApiKey = js_prop body ''userApiKey''
          in (case messages of
                Some (JArr ms) \<Rightarrow>
                  (case find (\<lambda>m. JStr (model_id m) = model) AVAILABLE_MODELS of
                     None \<Rightarrow> Inl (UnsupportedModel model)
                   | Some supportedModel \<Rightarrow>
                       (case start parse env (JArr ms) model provider userApiKey of
                          (queue, ending, calls, chars) \<Rightarrow>
                            Inr \<lparr>response = EventStream queue ending, provider_calls = calls,
                                 logged_error = None, logged_characters = chars,
                                 sendEvent_calls = 0\<rparr>))
              | _ \<Rightarrow>
                  Inr \<lparr>response = JsonResponse 400 ''Messages array is required'',
                       provider_calls = [], logged_error = None, logged_characters = None,
                       sendEvent_calls = 0\<rparr>))"

text \<open>\<open>POST\<close>: the two gates, then the \<open>try\<close> block with its \<open>catch\<close> and \<open>finally\<close>.\<close>

definition POST :: "parse \<Rightarrow> chat_env \<Rightarrow> json option \<Rightarrow> post_result" where
  "POST parse env request_json =
     (case auth_user env of
        None \<Rightarrow>
          \<lparr>response = JsonResponse 401 ''Unauthorized'', provider_calls = [],
           logged_error = None, logged_characters = None, sendEvent_calls = 0\<rparr>
      | Some uid \<Rightarrow>
          if \<not> isFeatureEntitled env uid then
            \<lparr>response = JsonResponse 401 ''Not entitled'', provider_calls = [],
             logged_error = None, logged_characters = None, sendEvent_calls = 0\<rparr>
          else
            (case post_try parse env request_json of
               Inr r \<Rightarrow> r\<lparr>sendEvent_calls := 1\<rparr>
             | Inl e \<Rightarrow>
                 \<lparr>response = JsonResponse 500 ''Internal server error'', provider_calls = [],
                  logged_error = Some e, logged_characters = None, sendEvent_calls = 1\<rparr>))"


section \<open>Restarts and scripted provider streams\<close>



text \<open>
  The content-bearing chunks of an OpenAI stream are those whose first choice carries
  a non-empty text; \<open>chunk_texts\<close> lists these texts in the order of the chunks.
\<close>

definition chunk_texts :: "chunk list \<Rightarrow> string list" where
  "chunk_texts chunks = filter (\<lambda>s. s \<noteq> []) (map chunk_content chunks)"

text \<open>
  A chunk of a scripted Anthropic stream, as the provider's wire format has it:
  lines that each end in a newline, one of them a \<open>data: \<close> line, the others (an
  \<open>event: \<close> line before it, the empty line after it) no data lines. The chunk is
  content-bearing when its data is a \<open>content_block_delta\<close> event whose delta is a
  \<open>text_delta\<close> with a text; otherwise its data is an event of another type
  (\<open>message_start\<close>, \<open>ping\<close>, \<open>message_delta\<close> and so on). A scripted chunk is given
  by the lines before, the data, the lines after, and the text if it bears one;
  \<open>scripted_texts\<close> lists the texts in the order of the chunks.
\<close>

definition text_delta :: "json \<Rightarrow> string \<Rightarrow> bool" where
  "text_delta j t =
     (js_prop j ''type'' = Some (JStr ''content_block_delta'') \<and>
      (case js_prop j ''delta'' of
         Some (JObj d) \<Rightarrow>
           get_prop d ''type'' = Some (JStr ''text_delta'') \<and> get_prop d ''text'' = Some (JStr t)
       | _ \<Rightarrow> False))"

definition other_event :: "json \<Rightarrow> bool" where
  "other_event j = (j \<noteq> JNull \<and> js_prop j ''type'' \<noteq> Some (JStr ''content_block_delta''))"

definition sse_chunk :: "string list \<Rightarrow> string" where
  "sse_chunk ls = concat (map (\<lambda>l. l @ [newline]) ls)"

type_synonym scripted_chunk = "string list \<times> string \<times> string list \<times> string option"

definition scripted_text :: "scripted_chunk \<Rightarrow> string option" where
  "scripted_text sc = (case sc of (before, d, after, t) \<Rightarrow> t)"

definition scripted_texts :: "scripted_chunk list \<Rightarrow> string list" where
  "scripted_texts script = List.map_filter scripted_text script"

definition scripted_bytes :: "scripted_chunk \<Rightarrow> string" where
  "scripted_bytes sc =
     (case sc of (before, d, after, t) \<Rightarrow> sse_chunk (before @ [''data: '' @ d] @ after))"

definition well_framed :: "parse \<Rightarrow> scripted_chunk \<Rightarrow> bool" where
  "well_framed parse sc =
     (case sc of (before, d, after, t) \<Rightarrow>
        list_all (\<lambda>l. \<not> startsWith l ''data: '') (before @ after) \<and>
        list_all (\<lambda>l. newline \<notin> set l) (before @ [d] @ after) \<and>
        d \<noteq> ''[DONE]'' \<and>
        (case parse d of
           None \<Rightarrow> False
         | Some j \<Rightarrow> (case t of Some s \<Rightarrow> text_delta j s | None \<Rightarrow> other_event j)))"


text \<open>
  The remote part of an \<open>updateState\<close> call fails when \<open>getUser\<close> throws, when the
  \<open>select\<close> reports an error other than \<open>PGRST116\<close>, or when the \<open>update\<close> or
  \<open>insert\<close> reports an error.
\<close>

definition remote_fails :: "supabase_env \<Rightarrow> bool" where
  "remote_fails env =
     (case getUser env of
        AuthThrows \<Rightarrow> True
      | NoUser \<Rightarrow> False
      | SignedIn \<Rightarrow>
          (case select_error env of
             Some code \<Rightarrow> code \<noteq> ''PGRST116'' \<or> write_error env
           | None \<Rightarrow> write_error env))"

text \<open>
  In a schedule, the occurrences of a call are its five steps in order: \<open>getUser\<close> is
  answered, the \<open>select\<close> is carried out, the \<open>select\<close> is answered, the write is
  carried out, the write is answered. \<open>step_index a n\<close> is the position of step
  number \<open>n\<close>, counted from 0, of call \<open>a\<close>. A schedule of the ten steps of two calls
  is serialized when the remote store carries out the write of one call before it
  carries out the \<open>select\<close> of the other.
\<close>

fun step_index :: "bool \<Rightarrow> nat \<Rightarrow> bool list \<Rightarrow> nat option" where
  "step_index a n [] = None"
| "step_index a n (x # xs) =
     (if x = a then (case n of 0 \<Rightarrow> Some 0 | Suc m \<Rightarrow> map_option Suc (step_index a m xs))
      else map_option Suc (step_index a n xs))"

definition write_before_select :: "bool \<Rightarrow> bool list \<Rightarrow> bool" where
  "write_before_select a sched =
     (case (step_index a 3 sched, step_index (\<not> a) 1 sched) of
        (Some i, Some j) \<Rightarrow> i < j
      | _ \<Rightarrow> False)"

definition serialized :: "bool list \<Rightarrow> bool" where
  "serialized sched =
     (length sched = 10 \<and> step_index False 4 sched \<noteq> None \<and> step_index True 4 sched \<noteq> None \<and>
      (write_before_select False sched \<or> write_before_select True sched))"


section \<open>Runtime functions and worlds for the concrete runs\<close>

text \<open>
  The concrete runs below need some \<open>JSON.stringify\<close> and \<open>JSON.parse\<close> to compute
  with: these two agree with the runtime's on the few values the runs use.
\<close>

abbreviation run_stringify :: stringify where
  "run_stringify \<equiv> (\<lambda>v. case v of
       JNum n \<Rightarrow> (if n = 1 then ''1'' else if n = 2 then ''2'' else if n = 3 then ''3''
                  else if n = 4 then ''4'' else ''0'')
     | JStr s \<Rightarrow> ''\"'' @ s @ ''\"''
     | JObj kvs \<Rightarrow> (if kvs = [] then ''{}'' else ''null'')
     | _ \<Rightarrow> ''null'')"

abbreviation run_parse :: parse where
  "run_parse \<equiv> (\<lambda>s. if s = ''1'' then Some (JNum 1) else if s = ''2'' then Some (JNum 2)
        else if s = ''3'' then Some (JNum 3) else if s = ''4'' then Some (JNum 4)
        else if s = ''0'' then Some (JNum 0) else if s = ''null'' then Some JNull else None)"

abbreviation signed_in :: supabase_env where
  "signed_in \<equiv> \<lparr>getUser = SignedIn, select_error = None, write_error = False\<rparr>"


text \<open>The browser after a restart: the given \<open>localStorage\<close> and table, the initial React state.\<close>

abbreviation restart :: "(string \<times> string) list \<Rightarrow> obj option list \<Rightarrow> sync_world" where
  "restart store rows \<equiv>
     \<lparr>window_defined = True, localStorage_in_window = True, localStorage = store,
      state = [], isSync = True, isSyncing = False, isLoading = True, user_data = rows\<rparr>"


text \<open>
  A chat environment with a signed-in, entitled user and both keys set, whose
  providers give the same answer to every call; the parsed form of a text delta and
  a \<open>JSON.parse\<close> that knows the data payloads of the scripted Anthropic stream;
  an OpenAI stream of four chunks and an Anthropic stream of three, two of them
  content-bearing in each; a request body.
\<close>

abbreviation run_env :: "openai_result \<Rightarrow> fetch_result \<Rightarrow> chat_env" where
  "run_env openai anthropic \<equiv>
     \<lparr>auth_user = Some ''user-1'', isFeatureEntitled = (\<lambda>uid. True),
      OPENAI_API_KEY = Some ''sk-test'', ANTHROPIC_API_KEY = Some ''sk-ant-test'',
      openai_create = (\<lambda>call. openai), anthropic_fetch = (\<lambda>req. anthropic)\<rparr>"

abbreviation delta_json :: "string \<Rightarrow> json" where
  "delta_json t \<equiv>
     JObj [(''type'', JStr ''content_block_delta''),
           (''delta'', JObj [(''type'', JStr ''text_delta''), (''text'', JStr t)])]"

abbreviation wire_parse :: parse where
  "wire_parse \<equiv> (\<lambda>s. if s = ''{\"type\":\"ping\"}'' then Some (JObj [(''type'', JStr ''ping'')])
                     else if s = ''{\"type\":\"content_block_delta\",\"delta\":{\"type\":\"text_delta\",\"text\":\"Hel\"}}'' then Some (delta_json ''Hel'')
                     else if s = ''{\"type\":\"content_block_delta\",\"delta\":{\"type\":\"text_delta\",\"text\":\"lo\"}}'' then Some (delta_json ''lo'') else None)"

abbreviation hello_chunks :: "chunk list" where
  "hello_chunks \<equiv>
     [\<lparr>choices = [\<lparr>delta_content = Some ''Hel'', finish_reason = None\<rparr>], chunk_usage = None\<rparr>,
      \<lparr>choices = [\<lparr>delta_content = Some [], finish_reason = None\<rparr>], chunk_usage = None\<rparr>,
      \<lparr>choices = [\<lparr>delta_content = Some ''lo'', finish_reason = Some ''stop''\<rparr>],
       chunk_usage = None\<rparr>,
      \<lparr>choices = [],
       chunk_usage = Some \<lparr>total_tokens = 12, prompt_tokens = 10, completion_tokens = 2\<rparr>\<rparr>]"

abbreviation hello_script :: "scripted_chunk list" where
  "hello_script \<equiv>
     [([''event: content_block_delta''], ''{\"type\":\"content_block_delta\",\"delta\":{\"type\":\"text_delta\",\"text\":\"Hel\"}}'', [[]], Some ''Hel''),
      ([''event: ping''], ''{\"type\":\"ping\"}'', [[]], None),
      ([], ''{\"type\":\"content_block_delta\",\"delta\":{\"type\":\"text_delta\",\"text\":\"lo\"}}'', [[]], Some ''lo'')]"

abbreviation chat_body :: "string \<Rightarrow> string \<Rightarrow> json" where
  "chat_body model provider \<equiv>
     JObj [(''messages'', JArr [JObj [(''role'', JStr ''user''), (''content'', JStr ''hi'')]]),
           (''model'', JStr model), (''provider'', JStr provider)]"


section \<open>Properties of the state-sync provider\<close>

lemma get_prop_set_prop: "get_prop (set_prop kvs k v) k' = (if k' = k then Some v else get_prop kvs k')"
  by (induction kvs) (auto simp: get_prop_def)

lemma assign_other_key:
  "k' \<noteq> k \<Longrightarrow> get_prop (fst (assign ob k' v)) k = get_prop (fst ob) k"
  by (cases ob) (simp add: assign_def get_prop_set_prop)

lemma assign_same_key:
  "k \<noteq> ''__proto__'' \<Longrightarrow> get_prop (fst (assign ob k v)) k = Some v"
  by (cases ob) (simp add: assign_def get_prop_set_prop)

lemma merge_entry_win:
  "remote_wins stringify localState key val \<Longrightarrow>
   merge_entry stringify localState (m, s, h) (key, val) =
     (assign m key val, setItem s key (stringify val), True)"
  by (simp add: merge_entry_def)

lemma merge_entry_keep:
  "\<not> remote_wins stringify localState key val \<Longrightarrow>
   merge_entry stringify localState (m, s, h) (key, val) = (m, s, h)"
  by (simp add: merge_entry_def)

lemma merge_fold_state:
  "distinct (map fst xs) \<Longrightarrow> k \<noteq> ''__proto__'' \<Longrightarrow>
   foldl (merge_entry stringify localState) (m, s, h) xs = (m', s', h') \<Longrightarrow>
   get_prop (fst m') k = (case map_of xs k of
        Some rv \<Rightarrow> if remote_wins stringify localState k rv then Some rv else get_prop (fst m) k
      | None \<Rightarrow> get_prop (fst m) k)"
proof (induction xs arbitrary: m s h)
  case Nil
  then show ?case by simp
next
  case (Cons x xs)
  obtain key val where x: "x = (key, val)" by (cases x)
  from Cons.prems(1) x have nk: "map_of xs key = None" and d: "distinct (map fst xs)"
    by (auto simp: map_of_eq_None_iff)
  note np = Cons.prems(2)
  show ?case
  proof (cases "remote_wins stringify localState key val")
    case True
    with Cons.prems(3) x
    have "foldl (merge_entry stringify localState) (assign m key val, setItem s key (stringify val), True) xs = (m', s', h')"
      by (simp add: merge_entry_win)
    from Cons.IH[OF d np this] nk True x np show ?thesis
      by (auto simp: assign_other_key assign_same_key split: option.splits)
  next
    case False
    with Cons.prems(3) x
    have "foldl (merge_entry stringify localState) (m, s, h) xs = (m', s', h')"
      by (simp add: merge_entry_keep)
    from Cons.IH[OF d np this] nk False x show ?thesis
      by (auto split: option.splits)
  qed
qed

lemma merge_fold_store:
  "distinct (map fst xs) \<Longrightarrow>
   foldl (merge_entry stringify localState) (m, s, h) xs = (m', s', h') \<Longrightarrow>
   getItem s' k = (case map_of xs k of
        Some rv \<Rightarrow> if remote_wins stringify localState k rv then Some (stringify rv) else getItem s k
      | None \<Rightarrow> getItem s k)"
proof (induction xs arbitrary: m s h)
  case Nil
  then show ?case by simp
next
  case (Cons x xs)
  obtain key val where x: "x = (key, val)" by (cases x)
  from Cons.prems(1) x have nk: "map_of xs key = None" and d: "distinct (map fst xs)"
    by (auto simp: map_of_eq_None_iff)
  show ?case
  proof (cases "remote_wins stringify localState key val")
    case True
    with Cons.prems(2) x
    have "foldl (merge_entry stringify localState) (assign m key val, setItem s key (stringify val), True) xs = (m', s', h')"
      by (simp add: merge_entry_win)
    from Cons.IH[OF d this] nk True x show ?thesis
      by (auto simp: get_prop_set_prop getItem_def setItem_def split: option.splits)
  next
    case False
    with Cons.prems(2) x
    have "foldl (merge_entry stringify localState) (m, s, h) xs = (m', s', h')"
      by (simp add: merge_entry_keep)
    from Cons.IH[OF d this] nk False x show ?thesis
      by (auto split: option.splits)
  qed
qed

lemma merge_entry_True:
  "\<exists>m' s'. merge_entry stringify localState (m, s, True) x = (m', s', True)"
  by (cases x) (simp add: merge_entry_def)

lemma merge_fold_True:
  "foldl (merge_entry stringify localState) (m, s, True) ys = (m', s', h') \<Longrightarrow> h'"
proof (induction ys arbitrary: m s)
  case Nil
  then show ?case by simp
next
  case (Cons y ys)
  obtain m1 s1 where "merge_entry stringify localState (m, s, True) y = (m1, s1, True)"
    using merge_entry_True by blast
  with Cons.prems have "foldl (merge_entry stringify localState) (m1, s1, True) ys = (m', s', h')"
    by simp
  then show ?case by (rule Cons.IH)
qed

lemma merge_fold_unchanged:
  "foldl (merge_entry stringify localState) (m, s, False) xs = (m', s', False) \<Longrightarrow> m' = m \<and> s' = s"
proof (induction xs arbitrary: m s)
  case Nil
  then show ?case by simp
next
  case (Cons x xs)
  obtain key val where x: "x = (key, val)" by (cases x)
  show ?case
  proof (cases "remote_wins stringify localState key val")
    case True
    with Cons.prems x
    have "foldl (merge_entry stringify localState) (assign m key val, setItem s key (stringify val), True) xs = (m', s', False)"
      by (simp add: merge_entry_win)
    then have False by (rule merge_fold_True)
    then show ?thesis ..
  next
    case False
    with Cons.prems x
    have "foldl (merge_entry stringify localState) (m, s, False) xs = (m', s', False)"
      by (simp add: merge_entry_keep)
    then show ?thesis by (rule Cons.IH)
  qed
qed

lemma load_signed_in:
  assumes avail: "isLocalStorageAvailable w"
    and user: "getUser env = SignedIn"
    and sel: "select_error env = None"
    and row: "user_data w = [Some remote]"
    and mr: "merge_remote stringify (load_local parse (localStorage w)) (localStorage w) remote
              = (merged, store, hasUpdates)"
  shows "state (loadInitialState parse stringify env w) = fst merged"
    and "localStorage (loadInitialState parse stringify env w) = store"
proof -
  have lt: "load_try parse stringify env w =
      Inr (w\<lparr>state := fst (load_local parse (localStorage w)), localStorage := store,
             state := (if hasUpdates then fst merged else fst (load_local parse (localStorage w)))\<rparr>)"
    using user sel row mr by (simp add: load_try_def select_single_def Let_def)
  have same: "\<not> hasUpdates \<Longrightarrow> fst merged = fst (load_local parse (localStorage w))"
    using mr merge_fold_unchanged[of stringify "load_local parse (localStorage w)"
        "(fst (load_local parse (localStorage w)), ObjectPrototype)" "localStorage w" remote merged store]
    by (auto simp add: merge_remote_def)
  show "state (loadInitialState parse stringify env w) = fst merged"
    using avail lt same by (simp add: loadInitialState_def)
  show "localStorage (loadInitialState parse stringify env w) = store"
    using avail lt by (simp add: loadInitialState_def)
qed



lemma load_key_prototype:
  "key \<noteq> ''__proto__'' \<Longrightarrow> snd (load_key parse store acc key) = snd acc"
  by (cases acc) (simp add: load_key_def assign_def split: option.splits)

lemma load_fold_prototype:
  "''__proto__'' \<notin> set ks \<Longrightarrow> snd (foldl (load_key parse store) acc ks) = snd acc"
  by (induction ks arbitrary: acc) (auto simp: load_key_prototype)

lemma load_local_prototype:
  "getItem store ''__proto__'' = None \<Longrightarrow> snd (load_local parse store) = ObjectPrototype"
proof -
  assume "getItem store ''__proto__'' = None"
  then have "''__proto__'' \<notin> set (map fst store)"
    by (simp add: getItem_def get_prop_def map_of_eq_None_iff)
  then show ?thesis
    by (simp add: load_local_def load_fold_prototype)
qed

text \<open>
  Merge precedence of \<open>loadInitialState\<close> for every key other than \<open>__proto__\<close>, when
  \<open>localStorage\<close> has no item \<open>__proto__\<close> either, so that \<open>localState\<close> keeps
  \<open>Object.prototype\<close>. For a signed-in user whose one \<open>user_data\<close> row holds the object
  \<open>remote\<close>: a key of \<open>remote\<close> that the state read from \<open>localStorage\<close> lacks, or
  holds with a different serialization, gets the remote value in the resulting state,
  and the serialized remote value is written to \<open>localStorage\<close>; a key that \<open>remote\<close>
  lacks keeps what the local state has for it.
\<close>

lemma load_merge_other_keys:
  assumes avail: "isLocalStorageAvailable w"
    and user: "getUser env = SignedIn"
    and sel: "select_error env = None"
    and row: "user_data w = [Some remote]"
    and dist: "distinct (map fst remote)"
    and np: "k \<noteq> ''__proto__''"
    and nl: "getItem (localStorage w) ''__proto__'' = None"
  shows "(get_prop remote k = Some rv \<and>
            (get_prop (fst (load_local parse (localStorage w))) k = None \<or>
             (\<exists>lv. get_prop (fst (load_local parse (localStorage w))) k = Some lv \<and>
                   stringify lv \<noteq> stringify rv))
          \<longrightarrow> get_prop (state (loadInitialState parse stringify env w)) k = Some rv \<and>
              getItem (localStorage (loadInitialState parse stringify env w)) k
                = Some (stringify rv))
       \<and> (get_prop remote k = None
          \<longrightarrow> get_prop (state (loadInitialState parse stringify env w)) k
                = get_prop (fst (load_local parse (localStorage w))) k)"
proof -
  let ?local = "load_local parse (localStorage w)"
  obtain merged store hasUpdates where
    mr: "merge_remote stringify ?local (localStorage w) remote = (merged, store, hasUpdates)"
    by (cases "merge_remote stringify ?local (localStorage w) remote") auto
  from load_signed_in[OF avail user sel row mr]
  have st: "state (loadInitialState parse stringify env w) = fst merged"
    and ls: "localStorage (loadInitialState parse stringify env w) = store" .
  from mr have fold: "foldl (merge_entry stringify ?local)
      ((fst ?local, ObjectPrototype), localStorage w, False) remote = (merged, store, hasUpdates)"
    by (simp add: merge_remote_def)
  note ms = merge_fold_state[OF dist np fold]
  note mst = merge_fold_store[OF dist fold, of k]
  have proto: "snd ?local = ObjectPrototype"
    using nl by (rule load_local_prototype)
  have read: "js_get ?local k = get_prop (fst ?local) k"
    using proto np by (cases ?local) (simp add: js_get_def inherited_def split: option.splits)
  show ?thesis
  proof (intro conjI impI)
    assume a: "get_prop remote k = Some rv \<and>
            (get_prop (fst ?local) k = None \<or>
             (\<exists>lv. get_prop (fst ?local) k = Some lv \<and> stringify lv \<noteq> stringify rv))"
    then have rw: "remote_wins stringify ?local k rv"
      by (auto simp: remote_wins_def read)
    from a have mo: "map_of remote k = Some rv" by (simp add: get_prop_def)
    from ms mo rw st show "get_prop (state (loadInitialState parse stringify env w)) k = Some rv"
      by simp
    from mst mo rw ls
    show "getItem (localStorage (loadInitialState parse stringify env w)) k = Some (stringify rv)"
      by simp
  next
    assume "get_prop remote k = None"
    then have "map_of remote k = None" by (simp add: get_prop_def)
    with ms st show "get_prop (state (loadInitialState parse stringify env w)) k
        = get_prop (fst ?local) k"
      by simp
  qed
qed

text \<open>
  The run of the specification: local \<open>{A: 1, B: 2}\<close> and remote \<open>{B: 3, C: 4}\<close> give
  \<open>{A: 1, B: 3, C: 4}\<close>, with \<open>B\<close> and \<open>C\<close> written to \<open>localStorage\<close>.
\<close>

lemma load_merge_run:
  "loadInitialState run_parse run_stringify signed_in
       (restart [(''A'', ''1''), (''B'', ''2'')] [Some [(''B'', JNum 3), (''C'', JNum 4)]])
     = \<lparr>window_defined = True, localStorage_in_window = True,
        localStorage = [(''A'', ''1''), (''B'', ''3''), (''C'', ''4'')],
        state = [(''A'', JNum 1), (''B'', JNum 3), (''C'', JNum 4)],
        isSync = True, isSyncing = False, isLoading = False,
        user_data = [Some [(''B'', JNum 3), (''C'', JNum 4)]]\<rparr>"
  by (simp add: loadInitialState_def load_try_def isLocalStorageAvailable_def
      load_local_def load_key_def startsWith_def getItem_def setItem_def get_prop_def
      select_single_def merge_remote_def merge_entry_def remote_wins_def js_get_def
      inherited_def assign_def reaches_setter_def set_prototype_def)

text \<open>
  C1. Merge precedence of \<open>loadInitialState\<close> does not hold for the key \<open>__proto__\<close>.
  A signed-in user has \<open>A\<close> = 1 in \<open>localStorage\<close> and the one \<open>user_data\<close> row
  \<open>{__proto__: 1, C: 4}\<close>, as \<open>updateState\<close> stores it with the computed keys of
  lines 134 and 161. The key \<open>__proto__\<close> is in the remote record and is no property of
  the local state, so that merge precedence asks for the remote value in the merged
  state. The code finds the test of lines 94 to 97 true and writes the serialization
  to \<open>localStorage\<close>, but the assignment of line 98 runs the setter of
  \<open>Object.prototype\<close>, which ignores a number: the state that is set is
  \<open>{A: 1, C: 4}\<close>, without the key.
\<close>

theorem load_drops_proto_key:
  "loadInitialState run_parse run_stringify signed_in
       (restart [(''A'', ''1'')] [Some [(''__proto__'', JNum 1), (''C'', JNum 4)]])
     = \<lparr>window_defined = True, localStorage_in_window = True,
        localStorage = [(''A'', ''1''), (''__proto__'', ''1''), (''C'', ''4'')],
        state = [(''A'', JNum 1), (''C'', JNum 4)],
        isSync = True, isSyncing = False, isLoading = False,
        user_data = [Some [(''__proto__'', JNum 1), (''C'', JNum 4)]]\<rparr>
   \<and> get_prop [(''__proto__'', JNum 1), (''C'', JNum 4)] ''__proto__'' = Some (JNum 1)
   \<and> get_prop (fst (load_local run_parse [(''A'', ''1'')])) ''__proto__'' = None
   \<and> get_prop [(''A'', JNum 1), (''C'', JNum 4)] ''__proto__'' = None"
  by (simp add: loadInitialState_def load_try_def isLocalStorageAvailable_def
      load_local_def load_key_def startsWith_def getItem_def setItem_def get_prop_def
      select_single_def merge_remote_def merge_entry_def remote_wins_def js_get_def
      inherited_def assign_def reaches_setter_def set_prototype_def)

text \<open>
  C10. Without \<open>localStorage\<close>, \<open>updateState\<close> returns normally and leaves the whole
  world as it was: the state, the storage, the table and the two sync flags.
\<close>

theorem update_without_localStorage:
  "\<not> isLocalStorageAvailable w \<Longrightarrow> updateState stringify env key data w = Resolved w"
  by (simp add: updateState_def update_run_def update_begin_def)

theorem update_without_localStorage_witness:
  "\<not> isLocalStorageAvailable
       \<lparr>window_defined = False, localStorage_in_window = False, localStorage = [],
        state = [(''theme'', JStr ''dark'')], isSync = True, isSyncing = False, isLoading = False,
        user_data = [Some [(''theme'', JStr ''dark'')]]\<rparr>
   \<and> updateState run_stringify signed_in ''theme'' (JStr ''light'')
       \<lparr>window_defined = False, localStorage_in_window = False, localStorage = [],
        state = [(''theme'', JStr ''dark'')], isSync = True, isSyncing = False, isLoading = False,
        user_data = [Some [(''theme'', JStr ''dark'')]]\<rparr>
     = Resolved
       \<lparr>window_defined = False, localStorage_in_window = False, localStorage = [],
        state = [(''theme'', JStr ''dark'')], isSync = True, isSyncing = False, isLoading = False,
        user_data = [Some [(''theme'', JStr ''dark'')]]\<rparr>"
proof -
  let ?w = "\<lparr>window_defined = False, localStorage_in_window = False, localStorage = [],
        state = [(''theme'', JStr ''dark'')], isSync = True, isSyncing = False, isLoading = False,
        user_data = [Some [(''theme'', JStr ''dark'')]]\<rparr>"
  have h: "\<not> isLocalStorageAvailable ?w"
    by (simp add: isLocalStorageAvailable_def)
  from h update_without_localStorage[OF h, of run_stringify signed_in "''theme''" "JStr ''light''"]
  show ?thesis by (rule conjI)
qed

lemma update_run_fails:
  assumes "isLocalStorageAvailable w" "remote_fails env"
  shows "\<exists>e. update_run stringify env key data w =
           (Finished (Some e),
            w\<lparr>state := set_prop (state w) key data,
              localStorage := setItem (localStorage w) key (stringify data),
              isSync := False, isSyncing := False\<rparr>)"
  using assms
  by (cases "getUser env"; cases "select_error env"; cases "user_data w"; cases "tl (user_data w)")
     (auto simp: update_run_def update_begin_def Let_def remote_fails_def update_catch_def
        update_succeed_def select_single_def issue_write_def split: list.splits option.splits if_splits)

text \<open>
  C6. When the remote part of \<open>updateState\<close> fails, the promise still resolves; the
  state and \<open>localStorage\<close> hold the new value, \<open>isSync\<close> is false, \<open>isSyncing\<close> is
  false, the table is as it was, and the call has finished with the error it logged:
  nothing is left in flight that would try again.
\<close>

theorem update_remote_failure:
  assumes avail: "isLocalStorageAvailable w" and fails: "remote_fails env"
  shows "updateState stringify env key data w =
           Resolved (w\<lparr>state := set_prop (state w) key data,
                       localStorage := setItem (localStorage w) key (stringify data),
                       isSync := False, isSyncing := False\<rparr>)
       \<and> (\<exists>e. fst (update_run stringify env key data w) = Finished (Some e))
       \<and> get_prop (set_prop (state w) key data) key = Some data
       \<and> getItem (setItem (localStorage w) key (stringify data)) key = Some (stringify data)"
proof -
  from update_run_fails[OF avail fails, of stringify key data]
  obtain e where run: "update_run stringify env key data w =
           (Finished (Some e),
            w\<lparr>state := set_prop (state w) key data,
              localStorage := setItem (localStorage w) key (stringify data),
              isSync := False, isSyncing := False\<rparr>)"
    by blast
  have "fst (update_run stringify env key data w) = Finished (Some e)"
    by (simp add: run)
  then have ex: "\<exists>e. fst (update_run stringify env key data w) = Finished (Some e)" ..
  show ?thesis
    using ex by (simp add: updateState_def run get_prop_set_prop getItem_def setItem_def)
qed

theorem update_remote_failure_witness:
  "updateState run_stringify \<lparr>getUser = SignedIn, select_error = None, write_error = True\<rparr>
       ''theme'' (JStr ''dark'') (restart [] [Some [(''theme'', JStr ''light'')]])
     = Resolved \<lparr>window_defined = True, localStorage_in_window = True,
         localStorage = [(''theme'', ''\"dark\"'')], state = [(''theme'', JStr ''dark'')],
         isSync = False, isSyncing = False, isLoading = True,
         user_data = [Some [(''theme'', JStr ''light'')]]\<rparr>"
proof -
  let ?env = "\<lparr>getUser = SignedIn, select_error = None, write_error = True\<rparr>"
  let ?w = "restart [] [Some [(''theme'', JStr ''light'')]]"
  have avail: "isLocalStorageAvailable ?w"
    by (simp add: isLocalStorageAvailable_def)
  have fails: "remote_fails ?env"
    by (simp add: remote_fails_def)
  from update_remote_failure[OF avail fails, of run_stringify "''theme''" "JStr ''dark''"]
  show ?thesis
    by (simp add: setItem_def)
qed













lemma begin_two:
  assumes "isLocalStorageAvailable w"
  shows "two_updates stringify env1 env2 (K1, V1) (K2, V2) sched w =
     interleave env1 env2 sched
       (AwaitGetUser K1 V1, AwaitGetUser K2 V2,
        w\<lparr>isSyncing := True, isSync := False,
          state := set_prop (set_prop (state w) K1 V1) K2 V2,
          localStorage := setItem (setItem (localStorage w) K1 (stringify V1)) K2 (stringify V2)\<rparr>)"
  using assms
  by (simp add: two_updates_def update_begin_def Let_def isLocalStorageAvailable_def)

lemma serialized_table:
  "filter serialized (List.n_lists 10 [False, True]) =
     [[True, True, True, True, True, False, False, False, False, False],
      [True, True, True, True, False, True, False, False, False, False],
      [True, True, True, False, True, True, False, False, False, False],
      [True, True, False, True, True, True, False, False, False, False],
      [True, False, True, True, True, True, False, False, False, False],
      [False, True, True, True, True, True, False, False, False, False],
      [True, True, True, True, False, False, True, False, False, False],
      [True, True, True, False, True, False, True, False, False, False],
      [True, True, False, True, True, False, True, False, False, False],
      [True, False, True, True, True, False, True, False, False, False],
      [False, True, True, True, True, False, True, False, False, False],
      [True, True, True, True, False, False, False, True, False, False],
      [True, True, True, False, True, False, False, True, False, False],
      [True, True, False, True, True, False, False, True, False, False],
      [True, False, True, True, True, False, False, True, False, False],
      [False, True, True, True, True, False, False, True, False, False],
      [True, True, True, True, False, False, False, False, True, False],
      [True, True, True, False, True, False, False, False, True, False],
      [True, True, False, True, True, False, False, False, True, False],
      [True, False, True, True, True, False, False, False, True, False],
      [False, True, True, True, True, False, False, False, True, False],
      [True, False, False, False, False, True, True, True, True, False],
      [False, True, False, False, False, True, True, True, True, False],
      [False, False, True, False, False, True, True, True, True, False],
      [False, False, False, True, False, True, True, True, True, False],
      [False, False, False, False, True, True, True, True, True, False],
      [True, True, True, True, False, False, False, False, False, True],
      [True, True, True, False, True, False, False, False, False, True],
      [True, True, False, True, True, False, False, False, False, True],
      [True, False, True, True, True, False, False, False, False, True],
      [False, True, True, True, True, False, False, False, False, True],
      [True, False, False, False, False, True, True, True, False, True],
      [False, True, False, False, False, True, True, True, False, True],
      [False, False, True, False, False, True, True, True, False, True],
      [False, False, False, True, False, True, True, True, False, True],
      [False, False, False, False, True, True, True, True, False, True],
      [True, False, False, False, False, True, True, False, True, True],
      [False, True, False, False, False, True, True, False, True, True],
      [False, False, True, False, False, True, True, False, True, True],
      [False, False, False, True, False, True, True, False, True, True],
      [False, False, False, False, True, True, True, False, True, True],
      [True, False, False, False, False, True, False, True, True, True],
      [False, True, False, False, False, True, False, True, True, True],
      [False, False, True, False, False, True, False, True, True, True],
      [False, False, False, True, False, True, False, True, True, True],
      [False, False, False, False, True, True, False, True, True, True],
      [True, False, False, False, False, False, True, True, True, True],
      [False, True, False, False, False, False, True, True, True, True],
      [False, False, True, False, False, False, True, True, True, True],
      [False, False, False, True, False, False, True, True, True, True],
      [False, False, False, False, True, False, True, True, True, True],
      [False, False, False, False, False, True, True, True, True, True]]"
  by code_simp

lemma serialized_cases:
  assumes "serialized sched"
  shows "sched \<in> set
     [[True, True, True, True, True, False, False, False, False, False],
      [True, True, True, True, False, True, False, False, False, False],
      [True, True, True, False, True, True, False, False, False, False],
      [True, True, False, True, True, True, False, False, False, False],
      [True, False, True, True, True, True, False, False, False, False],
      [False, True, True, True, True, True, False, False, False, False],
      [True, True, True, True, False, False, True, False, False, False],
      [True, True, True, False, True, False, True, False, False, False],
      [True, True, False, True, True, False, True, False, False, False],
      [True, False, True, True, True, False, True, False, False, False],
      [False, True, True, True, True, False, True, False, False, False],
      [True, True, True, True, False, False, False, True, False, False],
      [True, True, True, False, True, False, False, True, False, False],
      [True, True, False, True, True, False, False, True, False, False],
      [True, False, True, True, True, False, False, True, False, False],
      [False, True, True, True, True, False, False, True, False, False],
      [True, True, True, True, False, False, False, False, True, False],
      [True, True, True, False, True, False, False, False, True, False],
      [True, True, False, True, True, False, False, False, True, False],
      [True, False, True, True, True, False, False, False, True, False],
      [False, True, True, True, True, False, False, False, True, False],
      [True, False, False, False, False, True, True, True, True, False],
      [False, True, False, False, False, True, True, True, True, False],
      [False, False, True, False, False, True, True, True, True, False],
      [False, False, False, True, False, True, True, True, True, False],
      [False, False, False, False, True, True, True, True, True, False],
      [True, True, True, True, False, False, False, False, False, True],
      [True, True, True, False, True, False, False, False, False, True],
      [True, True, False, True, True, False, False, False, False, True],
      [True, False, True, True, True, False, False, False, False, True],
      [False, True, True, True, True, False, False, False, False, True],
      [True, False, False, False, False, True, True, True, False, True],
      [False, True, False, False, False, True, True, True, False, True],
      [False, False, True, False, False, True, True, True, False, True],
      [False, False, False, True, False, True, True, True, False, True],
      [False, False, False, False, True, True, True, True, False, True],
      [True, False, False, False, False, True, True, False, True, True],
      [False, True, False, False, False, True, True, False, True, True],
      [False, False, True, False, False, True, True, False, True, True],
      [False, False, False, True, False, True, True, False, True, True],
      [False, False, False, False, True, True, True, False, True, True],
      [True, False, False, False, False, True, False, True, True, True],
      [False, True, False, False, False, True, False, True, True, True],
      [False, False, True, False, False, True, False, True, True, True],
      [False, False, False, True, False, True, False, True, True, True],
      [False, False, False, False, True, True, False, True, True, True],
      [True, False, False, False, False, False, True, True, True, True],
      [False, True, False, False, False, False, True, True, True, True],
      [False, False, True, False, False, False, True, True, True, True],
      [False, False, False, True, False, False, True, True, True, True],
      [False, False, False, False, True, False, True, True, True, True],
      [False, False, False, False, False, True, True, True, True, True]]"
proof -
  from assms have "length sched = 10" by (simp add: serialized_def)
  then have "sched \<in> set (List.n_lists 10 [False, True])"
    by (auto simp: set_n_lists)
  with assms have "sched \<in> set (filter serialized (List.n_lists 10 [False, True]))"
    by simp
  then show ?thesis
    by (simp only: serialized_table)
qed

text \<open>
  C5, as the code has it. Two \<open>updateState\<close> calls for distinct keys, both in flight,
  with a signed-in user, no remote error and at most one row, that row holding an
  object: when the remote store carries out the write of one call before it carries
  out the \<open>select\<close> of the other, both calls finish without an error and the row holds
  both keys with their values.
\<close>

theorem two_updates_serialized:
  assumes avail: "isLocalStorageAvailable w"
    and ne: "K1 \<noteq> K2"
    and e1: "getUser env1 = SignedIn" "select_error env1 = None" "\<not> write_error env1"
    and e2: "getUser env2 = SignedIn" "select_error env2 = None" "\<not> write_error env2"
    and rows: "user_data w = [] \<or> user_data w = [Some b]"
    and sched: "serialized sched"
  shows "\<exists>blob w'. two_updates stringify env1 env2 (K1, V1) (K2, V2) sched w
             = (Finished None, Finished None, w') \<and>
           user_data w' = [Some blob] \<and>
           get_prop blob K1 = Some V1 \<and> get_prop blob K2 = Some V2"
proof -
  note defs = update_succeed_def select_single_def issue_write_def update_rows_def insert_row_def
    get_prop_set_prop
  note cases = serialized_cases[OF sched]
  from rows show ?thesis
  proof
    assume r: "user_data w = []"
    show ?thesis
      using cases ne e1 e2 r
      by (auto simp: begin_two[OF avail] defs get_prop_def)
  next
    assume r: "user_data w = [Some b]"
    show ?thesis
      using cases ne e1 e2 r
      by (auto simp: begin_two[OF avail] defs)
  qed
qed

theorem two_updates_serialized_witness:
  "\<exists>blob w'. two_updates run_stringify signed_in signed_in (''k1'', JNum 1) (''k2'', JNum 2)
             [False, True, False, False, False, True, True, True, True, False]
             (restart [] [Some [(''a'', JNum 0)]])
             = (Finished None, Finished None, w') \<and>
           user_data w' = [Some blob] \<and>
           get_prop blob ''k1'' = Some (JNum 1) \<and> get_prop blob ''k2'' = Some (JNum 2)"
proof -
  let ?w = "restart [] [Some [(''a'', JNum 0)]]"
  have avail: "isLocalStorageAvailable ?w"
    by (simp add: isLocalStorageAvailable_def)
  have ne: "''k1'' \<noteq> ''k2''" by simp
  have e: "getUser signed_in = SignedIn" "select_error signed_in = None" "\<not> write_error signed_in"
    by simp_all
  have rows: "user_data ?w = [] \<or> user_data ?w = [Some [(''a'', JNum 0)]]"
    by simp
  have sched: "serialized [False, True, False, False, False, True, True, True, True, False]"
    by (simp add: serialized_def write_before_select_def eval_nat_numeral)
  show ?thesis
    by (rule two_updates_serialized[where stringify = run_stringify and w = ?w
          and ?env1.0 = signed_in and ?env2.0 = signed_in and ?K1.0 = "''k1''" and ?K2.0 = "''k2''"
          and ?V1.0 = "JNum 1" and ?V2.0 = "JNum 2" and b = "[(''a'', JNum 0)]"
          and sched = "[False, True, False, False, False, True, True, True, True, False]",
          OF avail ne e e rows sched])
qed

text \<open>
  The claim as stated fails when the remote store carries out both \<open>select\<close>s before
  either write: each call merges its key into the row it read, and the later write
  replaces the earlier one. Here the row \<open>{a: 0}\<close> ends as \<open>{a: 0, k2: 2}\<close>, without
  \<open>k1\<close>, while both calls finish with \<open>isSync\<close> true.
\<close>

theorem two_updates_counterexample:
  "two_updates run_stringify signed_in signed_in (''k1'', JNum 1) (''k2'', JNum 2)
       [False, True, False, True, False, True, False, True, False, True]
       (restart [] [Some [(''a'', JNum 0)]])
     = (Finished None, Finished None,
        \<lparr>window_defined = True, localStorage_in_window = True,
         localStorage = [(''k1'', ''1''), (''k2'', ''2'')],
         state = [(''k1'', JNum 1), (''k2'', JNum 2)], isSync = True, isSyncing = False,
         isLoading = True, user_data = [Some [(''a'', JNum 0), (''k2'', JNum 2)]]\<rparr>)
   \<and> get_prop [(''a'', JNum 0), (''k2'', JNum 2)] ''k1'' = None"
  by (simp add: two_updates_def update_begin_def isLocalStorageAvailable_def setItem_def
      update_succeed_def select_single_def issue_write_def update_rows_def get_prop_def)


section \<open>Properties of the chat route\<close>

lemma split_newline_line:
  "newline \<notin> set l \<Longrightarrow> split_newline (l @ newline # rest) = l # split_newline rest"
  by (induction l) auto

lemma split_newline_sse_chunk:
  "list_all (\<lambda>l. newline \<notin> set l) ls \<Longrightarrow> split_newline (sse_chunk ls) = ls @ [[]]"
  by (induction ls) (auto simp: sse_chunk_def split_newline_line)

lemma process_lines_skip:
  "list_all (\<lambda>l. \<not> startsWith l ''data: '') ls \<Longrightarrow>
   process_lines parse (ls @ rest) st = process_lines parse rest st"
  by (induction ls) auto

lemma text_delta_obj:
  assumes "text_delta j t"
  obtains kvs d where "j = JObj kvs" "get_prop kvs ''type'' = Some (JStr ''content_block_delta'')"
    "get_prop kvs ''delta'' = Some (JObj d)" "get_prop d ''type'' = Some (JStr ''text_delta'')"
    "get_prop d ''text'' = Some (JStr t)"
proof -
  from assms obtain kvs where j: "j = JObj kvs"
    by (cases j) (auto simp: text_delta_def)
  with assms have ty: "get_prop kvs ''type'' = Some (JStr ''content_block_delta'')"
    by (simp add: text_delta_def)
  from assms j obtain d where d: "get_prop kvs ''delta'' = Some (JObj d)"
      "get_prop d ''type'' = Some (JStr ''text_delta'')" "get_prop d ''text'' = Some (JStr t)"
    by (auto simp: text_delta_def split: option.splits json.splits)
  from j ty d show ?thesis by (rule that)
qed

lemma process_data_text_delta:
  assumes p: "parse d = Some j" and td: "text_delta j t"
  shows "process_data parse d (usage, queue) =
           (usage\<lparr>characters := add_count (characters usage) (Some (JNum (int (length t))))\<rparr>,
            queue @ [Content (JStr t)])"
proof -
  from td obtain kvs dl where j: "j = JObj kvs"
    and ty: "get_prop kvs ''type'' = Some (JStr ''content_block_delta'')"
    and dl: "get_prop kvs ''delta'' = Some (JObj dl)" "get_prop dl ''type'' = Some (JStr ''text_delta'')"
      "get_prop dl ''text'' = Some (JStr t)"
    by (rule text_delta_obj)
  have h1: "handle_text_delta j (usage, queue) =
      Some (usage\<lparr>characters := add_count (characters usage) (Some (JNum (int (length t))))\<rparr>,
            queue @ [Content (JStr t)])"
    by (simp add: handle_text_delta_def j ty dl)
  have h2: "handle_message_start j st = st" for st
    by (cases st) (simp add: handle_message_start_def j ty)
  have h3: "handle_message_delta j st = st" for st
    by (cases st) (simp add: handle_message_delta_def j ty)
  show ?thesis
    by (simp add: process_data_def p j h1[unfolded j] h2[unfolded j] h3[unfolded j])
qed

lemma process_data_other_event:
  assumes p: "parse d = Some j" and ev: "other_event j"
  shows "\<exists>usage'. process_data parse d (usage, queue) = (usage', queue) \<and>
           characters usage' = characters usage"
proof -
  from ev have nn: "j \<noteq> JNull" and ty: "js_prop j ''type'' \<noteq> Some (JStr ''content_block_delta'')"
    by (simp_all add: other_event_def)
  from ty have h1: "handle_text_delta j (usage, queue) = Some (usage, queue)"
    by (simp add: handle_text_delta_def)
  obtain u1 where h2: "handle_message_start j (usage, queue) = (u1, queue)"
    and c1: "characters u1 = characters usage"
    by (cases "handle_message_start j (usage, queue)")
       (auto simp: handle_message_start_def split: if_splits)
  obtain u2 where h3: "handle_message_delta j (u1, queue) = (u2, queue)"
    and c2: "characters u2 = characters u1"
    by (cases "handle_message_delta j (u1, queue)")
       (auto simp: handle_message_delta_def split: if_splits)
  have "process_data parse d (usage, queue) = (u2, queue)"
    using nn h1 h2 h3 by (cases j) (simp_all add: process_data_def p)
  with c1 c2 show ?thesis by simp
qed

lemma process_scripted_chunk:
  assumes wf: "well_framed parse sc" and n: "characters usage = Count n"
  shows "\<exists>usage'. process_lines parse (split_newline (scripted_bytes sc)) (usage, queue) =
             (usage', queue @ map (\<lambda>s. Content (JStr s)) (scripted_texts [sc])) \<and>
           characters usage' = Count (n + int (sum_list (map length (scripted_texts [sc]))))"
proof -
  obtain before d after t where sc: "sc = (before, d, after, t)" by (cases sc)
  from wf sc have nb: "list_all (\<lambda>l. \<not> startsWith l ''data: '') before"
    and na: "list_all (\<lambda>l. \<not> startsWith l ''data: '') after"
    and nl: "list_all (\<lambda>l. newline \<notin> set l) (before @ [''data: '' @ d] @ after)"
    and nd: "d \<noteq> ''[DONE]''"
    and p: "\<exists>j. parse d = Some j \<and> (case t of Some s \<Rightarrow> text_delta j s | None \<Rightarrow> other_event j)"
    by (auto simp: well_framed_def newline_def split: option.splits)
  from p obtain j where pj: "parse d = Some j"
    and kind: "case t of Some s \<Rightarrow> text_delta j s | None \<Rightarrow> other_event j" by blast
  have lines: "split_newline (scripted_bytes sc) = before @ (''data: '' @ d) # after @ [[]]"
    using split_newline_sse_chunk[OF nl] by (simp add: scripted_bytes_def sc)
  have tail: "process_lines parse (after @ [[]]) st = st" for st
    using process_lines_skip[OF na, of parse "[[]]" st] by (simp add: startsWith_def)
  have "process_lines parse (split_newline (scripted_bytes sc)) (usage, queue)
      = process_lines parse ((''data: '' @ d) # after @ [[]]) (usage, queue)"
    using process_lines_skip[OF nb] by (simp add: lines)
  also have "\<dots> = process_data parse d (usage, queue)"
    using nd by (simp add: startsWith_def tail)
  finally have run: "process_lines parse (split_newline (scripted_bytes sc)) (usage, queue)
      = process_data parse d (usage, queue)" .
  show ?thesis
  proof (cases t)
    case None
    with kind have "other_event j" by simp
    from process_data_other_event[where parse = parse, OF pj this, of usage queue]
    show ?thesis
      using None n run by (auto simp: scripted_texts_def scripted_text_def sc)
  next
    case (Some s)
    with kind have "text_delta j s" by simp
    from process_data_text_delta[where parse = parse, OF pj this, of usage queue]
    show ?thesis
      using Some n run by (simp add: scripted_texts_def scripted_text_def sc)
  qed
qed

lemma scripted_texts_Cons:
  "scripted_texts (sc # script) = scripted_texts [sc] @ scripted_texts script"
  by (simp add: scripted_texts_def split: option.splits)

lemma read_loop_script:
  assumes "list_all (well_framed parse) script" "characters usage = Count n"
  shows "\<exists>usage'. read_loop parse (map scripted_bytes script) (usage, queue) =
             (usage', queue @ map (\<lambda>s. Content (JStr s)) (scripted_texts script)) \<and>
           characters usage' = Count (n + int (sum_list (map length (scripted_texts script))))"
  using assms
proof (induction script arbitrary: usage queue n)
  case Nil
  then show ?case by (simp add: scripted_texts_def)
next
  case (Cons sc script)
  from Cons.prems have wf: "well_framed parse sc" and rest: "list_all (well_framed parse) script"
    by simp_all
  from process_scripted_chunk[OF wf Cons.prems(2), of queue] obtain u1 where
    step: "process_lines parse (split_newline (scripted_bytes sc)) (usage, queue) =
             (u1, queue @ map (\<lambda>s. Content (JStr s)) (scripted_texts [sc]))"
    and c1: "characters u1 = Count (n + int (sum_list (map length (scripted_texts [sc]))))"
    by blast
  from Cons.IH[OF rest c1, of "queue @ map (\<lambda>s. Content (JStr s)) (scripted_texts [sc])"]
  obtain u2 where
    loop: "read_loop parse (map scripted_bytes script)
             (u1, queue @ map (\<lambda>s. Content (JStr s)) (scripted_texts [sc])) =
           (u2, (queue @ map (\<lambda>s. Content (JStr s)) (scripted_texts [sc]))
                 @ map (\<lambda>s. Content (JStr s)) (scripted_texts script))"
    and c2: "characters u2 = Count (n + int (sum_list (map length (scripted_texts [sc])))
                + int (sum_list (map length (scripted_texts script))))"
    by blast
  from step loop c2 show ?case
    by (simp add: scripted_texts_Cons[of sc script] add.assoc)
qed

lemma openai_loop_texts:
  assumes "totalCharacters t = Count n"
  shows "\<exists>t'. openai_loop chunks (t, queue) =
            (t', queue @ map (\<lambda>s. Content (JStr s)) (chunk_texts chunks)) \<and>
          totalCharacters t' = Count (n + int (sum_list (map length (chunk_texts chunks))))"
  using assms
proof (induction chunks arbitrary: t queue n)
  case Nil
  then show ?case by (simp add: openai_loop_def chunk_texts_def)
next
  case (Cons c chunks)
  obtain t1 q1 where step: "openai_chunk (t, queue) c = (t1, q1)"
    by (cases "openai_chunk (t, queue) c")
  have q1: "q1 = queue @ map (\<lambda>s. Content (JStr s)) (chunk_texts [c])"
    and c1: "totalCharacters t1 = Count (n + int (sum_list (map length (chunk_texts [c]))))"
    using step Cons.prems
    by (auto simp: openai_chunk_def chunk_texts_def Let_def split: option.splits list.splits if_splits)
  from Cons.IH[OF c1, of q1] obtain t' where
    loop: "openai_loop chunks (t1, q1) = (t', q1 @ map (\<lambda>s. Content (JStr s)) (chunk_texts chunks))"
    and c': "totalCharacters t' = Count (n + int (sum_list (map length (chunk_texts [c])))
                + int (sum_list (map length (chunk_texts chunks))))"
    by blast
  have split: "chunk_texts (c # chunks) = chunk_texts [c] @ chunk_texts chunks"
    by (simp add: chunk_texts_def)
  have "openai_loop (c # chunks) (t, queue) = openai_loop chunks (t1, q1)"
    by (simp add: openai_loop_def step)
  with loop q1 c' split show ?case
    by (simp add: add.assoc)
qed

text \<open>
  C3. The stream's \<open>start\<close> function on a scripted provider stream. For \<open>openai\<close>:
  the queue is the metadata event, then one content event for each content-bearing
  chunk, with its text and in the order of the chunks, then the \<open>[DONE]\<close> sentinel;
  the stream is closed and the character count is the sum of the lengths of the
  texts. For \<open>anthropic\<close>, on a body of well-framed chunks: the same, with the
  texts of the text deltas of the content-bearing chunks.
\<close>

theorem normalizer_mirrors_chunks:
  "(provider = JStr ''openai'' \<and>
    key_or_env userApiKey (OPENAI_API_KEY env) = Some k \<and>
    openai_create env \<lparr>call_apiKey = k, call_model = model, call_messages = messages\<rparr>
      = Streams chunks IterationEnds
    \<longrightarrow> start parse env messages model provider userApiKey =
          (Metadata model # map (\<lambda>s. Content (JStr s)) (chunk_texts chunks) @ [DoneSentinel],
           Closed,
           [OpenAICreate \<lparr>call_apiKey = k, call_model = model, call_messages = messages\<rparr>],
           Some (Count (int (sum_list (map length (chunk_texts chunks)))))))
 \<and> (provider = JStr ''anthropic'' \<and>
    anthropic_fetch env
        (anthropic_request \<lparr>params_model = model, params_messages = messages,
           params_apiKey = key_or_env userApiKey (ANTHROPIC_API_KEY env)\<rparr>)
      = Responds \<lparr>ok = True, status = code,
                  response_body = Some (map scripted_bytes script, EndOfStream)\<rparr> \<and>
    list_all (well_framed parse) script
    \<longrightarrow> start parse env messages model provider userApiKey =
          (Metadata model # map (\<lambda>s. Content (JStr s)) (scripted_texts script) @ [DoneSentinel],
           Closed,
           [AnthropicFetch
              (anthropic_request \<lparr>params_model = model, params_messages = messages,
                 params_apiKey = key_or_env userApiKey (ANTHROPIC_API_KEY env)\<rparr>)],
           Some (Count (int (sum_list (map length (scripted_texts script)))))))"
proof (intro conjI impI)
  assume a: "provider = JStr ''openai'' \<and>
    key_or_env userApiKey (OPENAI_API_KEY env) = Some k \<and>
    openai_create env \<lparr>call_apiKey = k, call_model = model, call_messages = messages\<rparr>
      = Streams chunks IterationEnds"
  have "totalCharacters initial_totals = Count 0" by (simp add: initial_totals_def)
  from openai_loop_texts[OF this, of chunks "[Metadata model]"] obtain t' where
    loop: "openai_loop chunks (initial_totals, [Metadata model]) =
            (t', [Metadata model] @ map (\<lambda>s. Content (JStr s)) (chunk_texts chunks))"
    and chars: "totalCharacters t' = Count (0 + int (sum_list (map length (chunk_texts chunks))))"
    by blast
  from a loop chars
  show "start parse env messages model provider userApiKey =
          (Metadata model # map (\<lambda>s. Content (JStr s)) (chunk_texts chunks) @ [DoneSentinel],
           Closed,
           [OpenAICreate \<lparr>call_apiKey = k, call_model = model, call_messages = messages\<rparr>],
           Some (Count (int (sum_list (map length (chunk_texts chunks))))))"
    by (simp add: start_def Let_def)
next
  let ?params = "\<lparr>params_model = model, params_messages = messages,
           params_apiKey = key_or_env userApiKey (ANTHROPIC_API_KEY env)\<rparr>"
  let ?u0 = "\<lparr>input_tokens = JNum 0, output_tokens = JNum 0, characters = Count 0\<rparr>"
  assume a: "provider = JStr ''anthropic'' \<and>
    anthropic_fetch env (anthropic_request ?params)
      = Responds \<lparr>ok = True, status = code,
                  response_body = Some (map scripted_bytes script, EndOfStream)\<rparr> \<and>
    list_all (well_framed parse) script"
  then have wf: "list_all (well_framed parse) script" by simp
  have "characters ?u0 = Count 0" by simp
  from read_loop_script[OF wf this, of "[Metadata model]"] obtain usage' where
    loop: "read_loop parse (map scripted_bytes script) (?u0, [Metadata model]) =
      (usage', [Metadata model] @ map (\<lambda>s. Content (JStr s)) (scripted_texts script))"
    and chars: "characters usage' = Count (0 + int (sum_list (map length (scripted_texts script))))"
    by blast
  from a have "anthropicStream parse (anthropic_fetch env) ?params [Metadata model] =
      ([Metadata model] @ map (\<lambda>s. Content (JStr s)) (scripted_texts script), Inr usage')"
    by (simp add: anthropicStream_def loop)
  with a chars
  show "start parse env messages model provider userApiKey =
          (Metadata model # map (\<lambda>s. Content (JStr s)) (scripted_texts script) @ [DoneSentinel],
           Closed,
           [AnthropicFetch (anthropic_request ?params)],
           Some (Count (int (sum_list (map length (scripted_texts script))))))"
    by (simp add: start_def Let_def)
qed

theorem normalizer_mirrors_chunks_witness:
  "start run_parse (run_env (Streams hello_chunks IterationEnds) FetchRejects)
       (JArr []) (JStr ''gpt-4o'') (JStr ''openai'') None
     = ([Metadata (JStr ''gpt-4o''), Content (JStr ''Hel''), Content (JStr ''lo''), DoneSentinel],
        Closed,
        [OpenAICreate \<lparr>call_apiKey = JStr ''sk-test'', call_model = JStr ''gpt-4o'',
                       call_messages = JArr []\<rparr>],
        Some (Count 5))
   \<and> start wire_parse
       (run_env (CreateRejects None)
          (Responds \<lparr>ok = True, status = 200,
                     response_body = Some (map scripted_bytes hello_script, EndOfStream)\<rparr>))
       (JArr []) (JStr ''claude-sonnet-4-20250514'') (JStr ''anthropic'') None
     = ([Metadata (JStr ''claude-sonnet-4-20250514''), Content (JStr ''Hel''), Content (JStr ''lo''),
         DoneSentinel],
        Closed,
        [AnthropicFetch
           (anthropic_request \<lparr>params_model = JStr ''claude-sonnet-4-20250514'',
              params_messages = JArr [], params_apiKey = Some (JStr ''sk-ant-test'')\<rparr>)],
        Some (Count 5))"
proof -
  let ?oenv = "run_env (Streams hello_chunks IterationEnds) FetchRejects"
  let ?aenv = "run_env (CreateRejects None)
          (Responds \<lparr>ok = True, status = 200,
                     response_body = Some (map scripted_bytes hello_script, EndOfStream)\<rparr>)"
  have texts: "chunk_texts hello_chunks = [''Hel'', ''lo'']"
    by (simp add: chunk_texts_def chunk_content_def)
  have "start run_parse ?oenv (JArr []) (JStr ''gpt-4o'') (JStr ''openai'') None =
          (Metadata (JStr ''gpt-4o'') # map (\<lambda>s. Content (JStr s)) (chunk_texts hello_chunks)
             @ [DoneSentinel],
           Closed,
           [OpenAICreate \<lparr>call_apiKey = JStr ''sk-test'', call_model = JStr ''gpt-4o'',
                          call_messages = JArr []\<rparr>],
           Some (Count (int (sum_list (map length (chunk_texts hello_chunks))))))"
    by (rule mp[OF conjunct1[OF normalizer_mirrors_chunks[where provider = "JStr ''openai''"
              and env = ?oenv and userApiKey = None and k = "JStr ''sk-test''"
              and model = "JStr ''gpt-4o''" and messages = "JArr []" and chunks = hello_chunks
              and parse = run_parse]]])
       (simp add: key_or_env_def truthy_opt_def)
  then have openai: "start run_parse ?oenv (JArr []) (JStr ''gpt-4o'') (JStr ''openai'') None
     = ([Metadata (JStr ''gpt-4o''), Content (JStr ''Hel''), Content (JStr ''lo''), DoneSentinel],
        Closed,
        [OpenAICreate \<lparr>call_apiKey = JStr ''sk-test'', call_model = JStr ''gpt-4o'',
                       call_messages = JArr []\<rparr>],
        Some (Count 5))"
    by (simp add: texts)
  have framed: "list_all (well_framed wire_parse) hello_script"
    by (simp add: well_framed_def text_delta_def other_event_def startsWith_def newline_def
        get_prop_def)
  have atexts: "scripted_texts hello_script = [''Hel'', ''lo'']"
    by (simp add: scripted_texts_def scripted_text_def)
  have "start wire_parse ?aenv (JArr []) (JStr ''claude-sonnet-4-20250514'') (JStr ''anthropic'') None =
          (Metadata (JStr ''claude-sonnet-4-20250514'')
             # map (\<lambda>s. Content (JStr s)) (scripted_texts hello_script) @ [DoneSentinel],
           Closed,
           [AnthropicFetch
              (anthropic_request \<lparr>params_model = JStr ''claude-sonnet-4-20250514'',
                 params_messages = JArr [],
                 params_apiKey = key_or_env None (ANTHROPIC_API_KEY ?aenv)\<rparr>)],
           Some (Count (int (sum_list (map length (scripted_texts hello_script))))))"
    by (rule mp[OF conjunct2[OF normalizer_mirrors_chunks[where provider = "JStr ''anthropic''"
              and env = ?aenv and userApiKey = None and code = 200
              and model = "JStr ''claude-sonnet-4-20250514''" and messages = "JArr []"
              and script = hello_script and parse = wire_parse]]])
       (simp only: framed, simp)
  then have anthropic: "start wire_parse ?aenv (JArr []) (JStr ''claude-sonnet-4-20250514'')
       (JStr ''anthropic'') None
     = ([Metadata (JStr ''claude-sonnet-4-20250514''), Content (JStr ''Hel''), Content (JStr ''lo''),
         DoneSentinel],
        Closed,
        [AnthropicFetch
           (anthropic_request \<lparr>params_model = JStr ''claude-sonnet-4-20250514'',
              params_messages = JArr [], params_apiKey = Some (JStr ''sk-ant-test'')\<rparr>)],
        Some (Count 5))"
    by (simp add: atexts key_or_env_def truthy_opt_def)
  from openai anthropic show ?thesis by (rule conjI)
qed

lemma POST_accepted:
  assumes user: "auth_user env = Some uid" and ent: "isFeatureEntitled env uid"
    and body: "body \<noteq> JNull" and msgs: "js_prop body ''messages'' = Some (JArr ms)"
    and model: "request_model body \<in> (\<lambda>m. JStr (model_id m)) ` set AVAILABLE_MODELS"
    and st: "start parse env (JArr ms) (request_model body) (request_provider body)
               (js_prop body ''userApiKey'') = (queue, ending, calls, chars)"
  shows "POST parse env (Some body) =
           \<lparr>response = EventStream queue ending, provider_calls = calls, logged_error = None,
            logged_characters = chars, sendEvent_calls = 1\<rparr>"
proof -
  from model obtain m where "find (\<lambda>m. JStr (model_id m) = request_model body) AVAILABLE_MODELS = Some m"
    by (cases "find (\<lambda>m. JStr (model_id m) = request_model body) AVAILABLE_MODELS")
       (auto simp: find_None_iff)
  with msgs st body have "post_try parse env (Some body) =
      Inr \<lparr>response = EventStream queue ending, provider_calls = calls, logged_error = None,
            logged_characters = chars, sendEvent_calls = 0\<rparr>"
    by (cases body) (simp_all add: post_try_def Let_def)
  with user ent show ?thesis
    by (simp add: POST_def)
qed

text \<open>
  C4, as the code has it. For a request that passes the checks of \<open>POST\<close>, when the
  provider answers the request with a non-success status (the \<open>fetch\<close> response of
  Anthropic is not \<open>ok\<close>, or the OpenAI client rejects with the status), the response
  is the event stream that carries the metadata event, which \<open>start\<close> enqueues before
  it calls the provider, and is then errored with the upstream failure: no content
  event and no \<open>[DONE]\<close> sentinel.
\<close>

theorem upstream_failure_after_metadata:
  assumes user: "auth_user env = Some uid" and ent: "isFeatureEntitled env uid"
    and body: "body \<noteq> JNull" and msgs: "js_prop body ''messages'' = Some (JArr ms)"
    and model: "request_model body \<in> (\<lambda>m. JStr (model_id m)) ` set AVAILABLE_MODELS"
  shows "(request_provider body = JStr ''anthropic'' \<and>
          anthropic_fetch env
              (anthropic_request \<lparr>params_model = request_model body, params_messages = JArr ms,
                 params_apiKey = key_or_env (js_prop body ''userApiKey'') (ANTHROPIC_API_KEY env)\<rparr>)
            = Responds r \<and> \<not> ok r
          \<longrightarrow> response (POST parse env (Some body)) =
                EventStream [Metadata (request_model body)] (Errored (UpstreamRequestFailed (status r))))
       \<and> (request_provider body = JStr ''openai'' \<and>
          key_or_env (js_prop body ''userApiKey'') (OPENAI_API_KEY env) = Some k \<and>
          openai_create env
              \<lparr>call_apiKey = k, call_model = request_model body, call_messages = JArr ms\<rparr>
            = CreateRejects (Some code)
          \<longrightarrow> response (POST parse env (Some body)) =
                EventStream [Metadata (request_model body)] (Errored (UpstreamRequestFailed code)))"
proof (intro conjI impI)
  assume a: "request_provider body = JStr ''anthropic'' \<and>
          anthropic_fetch env
              (anthropic_request \<lparr>params_model = request_model body, params_messages = JArr ms,
                 params_apiKey = key_or_env (js_prop body ''userApiKey'') (ANTHROPIC_API_KEY env)\<rparr>)
            = Responds r \<and> \<not> ok r"
  then have "\<exists>calls. start parse env (JArr ms) (request_model body) (request_provider body)
               (js_prop body ''userApiKey'')
      = ([Metadata (request_model body)], Errored (UpstreamRequestFailed (status r)), calls, None)"
    by (simp add: start_def Let_def anthropicStream_def)
  then obtain calls where "start parse env (JArr ms) (request_model body) (request_provider body)
               (js_prop body ''userApiKey'')
      = ([Metadata (request_model body)], Errored (UpstreamRequestFailed (status r)), calls, None)"
    by blast
  from POST_accepted[OF user ent body msgs model this]
  show "response (POST parse env (Some body)) =
                EventStream [Metadata (request_model body)] (Errored (UpstreamRequestFailed (status r)))"
    by simp
next
  assume a: "request_provider body = JStr ''openai'' \<and>
          key_or_env (js_prop body ''userApiKey'') (OPENAI_API_KEY env) = Some k \<and>
          openai_create env
              \<lparr>call_apiKey = k, call_model = request_model body, call_messages = JArr ms\<rparr>
            = CreateRejects (Some code)"
  then have "\<exists>calls. start parse env (JArr ms) (request_model body) (request_provider body)
               (js_prop body ''userApiKey'')
      = ([Metadata (request_model body)], Errored (UpstreamRequestFailed code), calls, None)"
    by (simp add: start_def Let_def)
  then obtain calls where "start parse env (JArr ms) (request_model body) (request_provider body)
               (js_prop body ''userApiKey'')
      = ([Metadata (request_model body)], Errored (UpstreamRequestFailed code), calls, None)"
    by blast
  from POST_accepted[OF user ent body msgs model this]
  show "response (POST parse env (Some body)) =
                EventStream [Metadata (request_model body)] (Errored (UpstreamRequestFailed code))"
    by simp
qed

theorem upstream_failure_after_metadata_witness:
  "response (POST run_parse (run_env (CreateRejects (Some 429)) FetchRejects)
       (Some (chat_body ''gpt-4o'' ''openai'')))
     = EventStream [Metadata (JStr ''gpt-4o'')] (Errored (UpstreamRequestFailed 429))"
proof -
  let ?env = "run_env (CreateRejects (Some 429)) FetchRejects"
  let ?body = "chat_body ''gpt-4o'' ''openai''"
  let ?ms = "[JObj [(''role'', JStr ''user''), (''content'', JStr ''hi'')]]"
  have user: "auth_user ?env = Some ''user-1''" and ent: "isFeatureEntitled ?env ''user-1''"
    by simp_all
  have body: "?body \<noteq> JNull" and msgs: "js_prop ?body ''messages'' = Some (JArr ?ms)"
    by (simp_all add: get_prop_def)
  have model: "request_model ?body \<in> (\<lambda>m. JStr (model_id m)) ` set AVAILABLE_MODELS"
    by (simp add: request_model_def get_prop_def AVAILABLE_MODELS_def)
  have rejects: "request_provider ?body = JStr ''openai'' \<and>
          key_or_env (js_prop ?body ''userApiKey'') (OPENAI_API_KEY ?env) = Some (JStr ''sk-test'') \<and>
          openai_create ?env
              \<lparr>call_apiKey = JStr ''sk-test'', call_model = request_model ?body,
               call_messages = JArr ?ms\<rparr>
            = CreateRejects (Some 429)"
    by (simp add: request_provider_def key_or_env_def truthy_opt_def get_prop_def)
  have "response (POST run_parse ?env (Some ?body)) =
      EventStream [Metadata (request_model ?body)] (Errored (UpstreamRequestFailed 429))"
    by (rule mp[OF conjunct2[OF upstream_failure_after_metadata[where parse = run_parse
              and env = ?env and body = ?body and k = "JStr ''sk-test''" and code = 429,
              OF user ent body msgs model]] rejects])
  then show ?thesis
    by (simp add: request_model_def get_prop_def)
qed

text \<open>
  The claim as stated fails: Anthropic answers 500 and the metadata event is in the
  stream all the same, ahead of the error.
\<close>

theorem upstream_failure_counterexample:
  "POST run_parse
       (run_env (CreateRejects None)
          (Responds \<lparr>ok = False, status = 500, response_body = None\<rparr>))
       (Some (chat_body ''claude-sonnet-4-20250514'' ''anthropic''))
     = \<lparr>response = EventStream [Metadata (JStr ''claude-sonnet-4-20250514'')]
                     (Errored (UpstreamRequestFailed 500)),
        provider_calls =
          [AnthropicFetch
             (anthropic_request
                \<lparr>params_model = JStr ''claude-sonnet-4-20250514'',
                 params_messages = JArr [JObj [(''role'', JStr ''user''), (''content'', JStr ''hi'')]],
                 params_apiKey = Some (JStr ''sk-ant-test'')\<rparr>)],
        logged_error = None, logged_characters = None, sendEvent_calls = 1\<rparr>"
  by (simp add: POST_def post_try_def request_model_def request_provider_def get_prop_def
      AVAILABLE_MODELS_def start_def anthropicStream_def key_or_env_def truthy_opt_def Let_def)

text \<open>
  C8. When \<open>isFeatureEntitled\<close> answers false for the signed-in user, \<open>POST\<close>
  returns the 401 response \<open>Not entitled\<close>: no call to a completion provider, no
  stream, and no usage event either.
\<close>

theorem not_entitled_no_provider_call:
  assumes "auth_user env = Some uid" and "\<not> isFeatureEntitled env uid"
  shows "POST parse env request_json =
           \<lparr>response = JsonResponse 401 ''Not entitled'', provider_calls = [],
            logged_error = None, logged_characters = None, sendEvent_calls = 0\<rparr>"
  using assms by (simp add: POST_def)

theorem not_entitled_no_provider_call_witness:
  "POST run_parse
       \<lparr>auth_user = Some ''user-1'', isFeatureEntitled = (\<lambda>uid. False),
        OPENAI_API_KEY = Some ''sk-test'', ANTHROPIC_API_KEY = Some ''sk-ant-test'',
        openai_create = (\<lambda>call. Streams hello_chunks IterationEnds),
        anthropic_fetch = (\<lambda>req. FetchRejects)\<rparr>
       (Some (chat_body ''gpt-4o'' ''openai''))
     = \<lparr>response = JsonResponse 401 ''Not entitled'', provider_calls = [],
        logged_error = None, logged_characters = None, sendEvent_calls = 0\<rparr>"
proof -
  let ?env = "\<lparr>auth_user = Some ''user-1'', isFeatureEntitled = (\<lambda>uid. False),
        OPENAI_API_KEY = Some ''sk-test'', ANTHROPIC_API_KEY = Some ''sk-ant-test'',
        openai_create = (\<lambda>call. Streams hello_chunks IterationEnds),
        anthropic_fetch = (\<lambda>req. FetchRejects)\<rparr>"
  have user: "auth_user ?env = Some ''user-1''" and ent: "\<not> isFeatureEntitled ?env ''user-1''"
    by simp_all
  show ?thesis
    by (rule not_entitled_no_provider_call[where env = ?env, OF user ent])
qed

text \<open>
  C7, as the code has it. A request whose model is not one of \<open>AVAILABLE_MODELS\<close>
  makes no call to a completion provider and gets no event stream, whatever else it
  carries; when it comes from a signed-in, entitled user and its \<open>messages\<close> are an
  array, line 46 throws the unsupported-model error, which is logged, and the response
  is the 500 \<open>Internal server error\<close>.
\<close>

theorem unsupported_model_rejected:
  assumes unsupported: "request_model body \<notin> (\<lambda>m. JStr (model_id m)) ` set AVAILABLE_MODELS"
  shows "provider_calls (POST parse env (Some body)) = []
       \<and> (\<forall>queue ending. response (POST parse env (Some body)) \<noteq> EventStream queue ending)
       \<and> (auth_user env = Some uid \<and> isFeatureEntitled env uid \<and> body \<noteq> JNull \<and>
          js_prop body ''messages'' = Some (JArr ms)
          \<longrightarrow> POST parse env (Some body) =
                \<lparr>response = JsonResponse 500 ''Internal server error'', provider_calls = [],
                 logged_error = Some (UnsupportedModel (request_model body)),
                 logged_characters = None, sendEvent_calls = 1\<rparr>)"
proof -
  from unsupported
  have none: "find (\<lambda>m. JStr (model_id m) = request_model body) AVAILABLE_MODELS = None"
    by (force simp: find_None_iff)
  have tried: "(\<exists>e. post_try parse env (Some body) = Inl e) \<or>
      post_try parse env (Some body) =
        Inr \<lparr>response = JsonResponse 400 ''Messages array is required'',
             provider_calls = [], logged_error = None, logged_characters = None,
             sendEvent_calls = 0\<rparr>"
    using none
    by (cases body; cases "js_prop body ''messages''")
       (auto simp: post_try_def Let_def split: json.splits)
  have gated: "js_prop body ''messages'' = Some (JArr ms) \<Longrightarrow> body \<noteq> JNull \<Longrightarrow>
      post_try parse env (Some body) = Inl (UnsupportedModel (request_model body))"
    using none by (cases body) (simp_all add: post_try_def Let_def)
  from tried have calls: "provider_calls (POST parse env (Some body)) = []"
    by (auto simp: POST_def split: option.splits)
  from tried have nostream: "\<forall>queue ending. response (POST parse env (Some body)) \<noteq> EventStream queue ending"
    by (auto simp: POST_def split: option.splits)
  from gated have full: "auth_user env = Some uid \<and> isFeatureEntitled env uid \<and> body \<noteq> JNull \<and>
          js_prop body ''messages'' = Some (JArr ms)
          \<longrightarrow> POST parse env (Some body) =
                \<lparr>response = JsonResponse 500 ''Internal server error'', provider_calls = [],
                 logged_error = Some (UnsupportedModel (request_model body)),
                 logged_characters = None, sendEvent_calls = 1\<rparr>"
    by (auto simp: POST_def)
  from calls nostream full show ?thesis by blast
qed

theorem unsupported_model_rejected_witness:
  "POST run_parse (run_env (Streams hello_chunks IterationEnds) FetchRejects)
       (Some (chat_body ''gpt-5'' ''openai''))
     = \<lparr>response = JsonResponse 500 ''Internal server error'', provider_calls = [],
        logged_error = Some (UnsupportedModel (JStr ''gpt-5'')),
        logged_characters = None, sendEvent_calls = 1\<rparr>"
proof -
  let ?env = "run_env (Streams hello_chunks IterationEnds) FetchRejects"
  let ?body = "chat_body ''gpt-5'' ''openai''"
  let ?ms = "[JObj [(''role'', JStr ''user''), (''content'', JStr ''hi'')]]"
  have unsupported: "request_model ?body \<notin> (\<lambda>m. JStr (model_id m)) ` set AVAILABLE_MODELS"
    by (simp add: request_model_def get_prop_def AVAILABLE_MODELS_def)
  have gates: "auth_user ?env = Some ''user-1'' \<and> isFeatureEntitled ?env ''user-1'' \<and> ?body \<noteq> JNull \<and>
          js_prop ?body ''messages'' = Some (JArr ?ms)"
    by (simp add: get_prop_def)
  have "POST run_parse ?env (Some ?body) =
          \<lparr>response = JsonResponse 500 ''Internal server error'', provider_calls = [],
           logged_error = Some (UnsupportedModel (request_model ?body)),
           logged_characters = None, sendEvent_calls = 1\<rparr>"
    by (rule mp[OF conjunct2[OF conjunct2[OF unsupported_model_rejected[where parse = run_parse
              and env = ?env and body = ?body and uid = "''user-1''" and ms = ?ms,
              OF unsupported]]] gates])
  then show ?thesis
    by (simp add: request_model_def get_prop_def)
qed

text \<open>
  The claim as stated fails for a request that an earlier check turns away: without
  a \<open>messages\<close> array the answer is the 400 response of line 38, and no
  unsupported-model error is thrown or logged.
\<close>

theorem unsupported_model_counterexample:
  "request_model (JObj [(''model'', JStr ''gpt-5'')])
       \<notin> (\<lambda>m. JStr (model_id m)) ` set AVAILABLE_MODELS
   \<and> POST run_parse (run_env (Streams hello_chunks IterationEnds) FetchRejects)
       (Some (JObj [(''model'', JStr ''gpt-5'')]))
     = \<lparr>response = JsonResponse 400 ''Messages array is required'', provider_calls = [],
        logged_error = None, logged_characters = None, sendEvent_calls = 1\<rparr>"
  by (simp add: POST_def post_try_def request_model_def request_provider_def get_prop_def
      AVAILABLE_MODELS_def)

lemma start_anthropic_calls:
  assumes "start parse env messages model provider userApiKey = (queue, ending, calls, chars)"
    and "AnthropicFetch req \<in> set calls"
  shows "\<exists>params. req = anthropic_request params"
  using assms
  by (auto simp: start_def Let_def split: if_splits option.splits openai_result.splits
      iteration_end.splits prod.splits sum.splits)

lemma POST_anthropic_calls:
  assumes "AnthropicFetch req \<in> set (provider_calls (POST parse env request_json))"
  shows "\<exists>params. req = anthropic_request params"
proof -
  from assms obtain r where r: "post_try parse env request_json = Inr r"
    and mem: "AnthropicFetch req \<in> set (provider_calls r)"
    by (auto simp: POST_def split: option.splits if_splits sum.splits)
  from r mem obtain messages model provider userApiKey queue ending calls chars where
    "start parse env messages model provider userApiKey = (queue, ending, calls, chars)"
    and "AnthropicFetch req \<in> set calls"
    by (auto simp: post_try_def Let_def split: option.splits json.splits prod.splits)
  then show ?thesis by (rule start_anthropic_calls)
qed

text \<open>
  C9. The request that \<open>anthropicStream\<close> builds has \<open>max_tokens\<close> 1024 whatever the
  model, the messages and the key are; every request that \<open>POST\<close> sends to Anthropic
  is such a request; hence a provider that never produces more output tokens than
  the \<open>max_tokens\<close> of the request it answers produces at most 1024.
\<close>

theorem anthropic_max_tokens:
  "js_prop (body_json (anthropic_request params)) ''max_tokens'' = Some (JNum 1024)
   \<and> (\<forall>req. AnthropicFetch req \<in> set (provider_calls (POST parse env request_json))
          \<longrightarrow> js_prop (body_json req) ''max_tokens'' = Some (JNum 1024))
   \<and> (\<forall>produced.
         (\<forall>req n. js_prop (body_json req) ''max_tokens'' = Some (JNum n) \<longrightarrow> produced req \<le> n)
          \<longrightarrow> produced (anthropic_request params) \<le> (1024 :: int))"
proof -
  have cap: "js_prop (body_json (anthropic_request p)) ''max_tokens'' = Some (JNum 1024)" for p
    by (simp add: anthropic_request_def get_prop_def)
  have calls: "\<forall>req. AnthropicFetch req \<in> set (provider_calls (POST parse env request_json))
          \<longrightarrow> js_prop (body_json req) ''max_tokens'' = Some (JNum 1024)"
    using POST_anthropic_calls cap by blast
  from cap calls show ?thesis by blast
qed

theorem anthropic_max_tokens_witness:
  "js_prop (body_json (anthropic_request
        \<lparr>params_model = JStr ''claude-sonnet-4-20250514'',
         params_messages = JArr [JObj [(''role'', JStr ''user''), (''content'', JStr ''hi'')]],
         params_apiKey = Some (JStr ''sk-ant-test'')\<rparr>)) ''max_tokens'' = Some (JNum 1024)
   \<and> provider_calls (POST run_parse
         (run_env (CreateRejects None) (Responds \<lparr>ok = False, status = 500, response_body = None\<rparr>))
         (Some (chat_body ''claude-sonnet-4-20250514'' ''anthropic'')))
       = [AnthropicFetch (anthropic_request
            \<lparr>params_model = JStr ''claude-sonnet-4-20250514'',
             params_messages = JArr [JObj [(''role'', JStr ''user''), (''content'', JStr ''hi'')]],
             params_apiKey = Some (JStr ''sk-ant-test'')\<rparr>)]
   \<and> (case js_prop (body_json (anthropic_request
        \<lparr>params_model = JStr ''claude-sonnet-4-20250514'',
         params_messages = JArr [JObj [(''role'', JStr ''user''), (''content'', JStr ''hi'')]],
         params_apiKey = Some (JStr ''sk-ant-test'')\<rparr>)) ''max_tokens'' of
          Some (JNum n) \<Rightarrow> n | _ \<Rightarrow> 0) \<le> (1024 :: int)"
proof -
  let ?params = "\<lparr>params_model = JStr ''claude-sonnet-4-20250514'',
         params_messages = JArr [JObj [(''role'', JStr ''user''), (''content'', JStr ''hi'')]],
         params_apiKey = Some (JStr ''sk-ant-test'')\<rparr>"
  let ?env = "run_env (CreateRejects None) (Responds \<lparr>ok = False, status = 500, response_body = None\<rparr>)"
  let ?rq = "Some (chat_body ''claude-sonnet-4-20250514'' ''anthropic'')"
  let ?tokens = "\<lambda>req. case js_prop (body_json req) ''max_tokens'' of Some (JNum n) \<Rightarrow> n | _ \<Rightarrow> (0 :: int)"
  note t = anthropic_max_tokens[where params = ?params and parse = run_parse and env = ?env
      and request_json = ?rq]
  have calls: "provider_calls (POST run_parse ?env ?rq) = [AnthropicFetch (anthropic_request ?params)]"
    by (simp add: POST_def post_try_def request_model_def request_provider_def get_prop_def
      AVAILABLE_MODELS_def start_def anthropicStream_def key_or_env_def truthy_opt_def Let_def)
  have honours: "\<forall>req n. js_prop (body_json req) ''max_tokens'' = Some (JNum n) \<longrightarrow> ?tokens req \<le> n"
    by simp
  from t have bound: "?tokens (anthropic_request ?params) \<le> 1024"
    using honours by blast
  from t have cap: "js_prop (body_json (anthropic_request ?params)) ''max_tokens'' = Some (JNum 1024)"
    by blast
  from cap calls bound show ?thesis by blast
qed

end
